theory Spec2Isabelle
  imports Main "HOL-Library.Word"
begin

section \<open>Strings and values of the TypeScript sources\<close>

text \<open>
  A JavaScript string is a sequence of UTF-16 code units, and \<open>s.length\<close> counts them.
  The sources compare strings with \<open>===\<close>, test them for emptiness and measure the
  password's length, so a string is modelled as the list of its code units. \<open>js\<close>
  embeds an ASCII literal; the Japanese literals of the sources are written out as code
  units, each with an English gloss and the place it comes from.
\<close>

type_synonym jsstring = "16 word list"

definition js :: "string \<Rightarrow> jsstring" where
  "js s = map (\<lambda>c. of_char c) s"

subsection \<open>The message literals of the sources\<close>

definition msg_user_info_not_found :: jsstring where
  \<comment> \<open>user information not found (auth.ts line 73)\<close>
  "msg_user_info_not_found =
    [0x30E6, 0x30FC, 0x30B6, 0x30FC, 0x60C5, 0x5831, 0x304C, 0x898B, 0x3064, 0x304B,
     0x308A, 0x307E, 0x305B, 0x3093]"

definition msg_account_disabled :: jsstring where
  \<comment> \<open>this account has been disabled (auth.ts lines 81 and 113)\<close>
  "msg_account_disabled =
    [0x3053, 0x306E, 0x30A2, 0x30AB, 0x30A6, 0x30F3, 0x30C8, 0x306F, 0x7121, 0x52B9,
     0x5316, 0x3055, 0x308C, 0x3066, 0x3044, 0x307E, 0x3059]"

definition msg_login_succeeded :: jsstring where
  \<comment> \<open>login succeeded (auth.ts line 97)\<close>
  "msg_login_succeeded =
    [0x30ED, 0x30B0, 0x30A4, 0x30F3, 0x306B, 0x6210, 0x529F, 0x3057, 0x307E, 0x3057,
     0x305F]"

definition msg_login_failed :: jsstring where
  \<comment> \<open>login failed (auth.ts lines 102 and 116)\<close>
  "msg_login_failed =
    [0x30ED, 0x30B0, 0x30A4, 0x30F3, 0x306B, 0x5931, 0x6557, 0x3057, 0x307E, 0x3057,
     0x305F]"

definition msg_bad_credentials :: jsstring where
  \<comment> \<open>e-mail address or password is not correct (auth.ts line 107)\<close>
  "msg_bad_credentials =
    [0x30E1, 0x30FC, 0x30EB, 0x30A2, 0x30C9, 0x30EC, 0x30B9, 0x307E, 0x305F, 0x306F,
     0x30D1, 0x30B9, 0x30EF, 0x30FC, 0x30C9, 0x304C, 0x6B63, 0x3057, 0x304F, 0x3042,
     0x308A, 0x307E, 0x305B, 0x3093]"

definition msg_too_many_requests :: jsstring where
  \<comment> \<open>login attempts reached the limit, try again after a while (auth.ts line 110)\<close>
  "msg_too_many_requests =
    [0x30ED, 0x30B0, 0x30A4, 0x30F3, 0x8A66, 0x884C, 0x56DE, 0x6570, 0x304C, 0x4E0A,
     0x9650, 0x306B, 0x9054, 0x3057, 0x307E, 0x3057, 0x305F, 0x3002, 0x3057, 0x3070,
     0x3089, 0x304F, 0x6642, 0x9593, 0x3092, 0x304A, 0x3044, 0x3066, 0x304A, 0x8A66,
     0x3057, 0x304F, 0x3060, 0x3055, 0x3044]"

definition msg_no_create_permission :: jsstring where
  \<comment> \<open>no permission to create users (auth.ts line 144)\<close>
  "msg_no_create_permission =
    [0x30E6, 0x30FC, 0x30B6, 0x30FC, 0x4F5C, 0x6210, 0x6A29, 0x9650, 0x304C, 0x3042,
     0x308A, 0x307E, 0x305B, 0x3093]"

definition msg_company_not_found :: jsstring where
  \<comment> \<open>the given company is not found (auth.ts line 150)\<close>
  "msg_company_not_found =
    [0x6307, 0x5B9A, 0x3055, 0x308C, 0x305F, 0x4F1A, 0x793E, 0x304C, 0x898B, 0x3064,
     0x304B, 0x308A, 0x307E, 0x305B, 0x3093]"

definition msg_user_created :: jsstring where
  \<comment> \<open>user created (auth.ts line 181)\<close>
  "msg_user_created =
    [0x30E6, 0x30FC, 0x30B6, 0x30FC, 0x3092, 0x4F5C, 0x6210, 0x3057, 0x307E, 0x3057,
     0x305F]"

definition msg_user_creation_failed :: jsstring where
  \<comment> \<open>user creation failed (auth.ts lines 186 and 199)\<close>
  "msg_user_creation_failed =
    [0x30E6, 0x30FC, 0x30B6, 0x30FC, 0x4F5C, 0x6210, 0x306B, 0x5931, 0x6557, 0x3057,
     0x307E, 0x3057, 0x305F]"

definition msg_email_in_use :: jsstring where
  \<comment> \<open>this e-mail address is already in use (auth.ts line 190)\<close>
  "msg_email_in_use =
    [0x3053, 0x306E, 0x30E1, 0x30FC, 0x30EB, 0x30A2, 0x30C9, 0x30EC, 0x30B9, 0x306F,
     0x65E2, 0x306B, 0x4F7F, 0x7528, 0x3055, 0x308C, 0x3066, 0x3044, 0x307E, 0x3059]"

definition msg_weak_password :: jsstring where
  \<comment> \<open>password too short (6 characters or more) (auth.ts line 193)\<close>
  "msg_weak_password =
    [0x30D1, 0x30B9, 0x30EF, 0x30FC, 0x30C9, 0x304C, 0x77ED, 0x3059, 0x304E, 0x307E,
     0x3059, 0xFF08, 0x0036, 0x6587, 0x5B57, 0x4EE5, 0x4E0A, 0xFF09]"

definition msg_invalid_email :: jsstring where
  \<comment> \<open>the format of the e-mail address is not correct (auth.ts lines 196 and 252, form line 254)\<close>
  "msg_invalid_email =
    [0x30E1, 0x30FC, 0x30EB, 0x30A2, 0x30C9, 0x30EC, 0x30B9, 0x306E, 0x5F62, 0x5F0F,
     0x304C, 0x6B63, 0x3057, 0x304F, 0x3042, 0x308A, 0x307E, 0x305B, 0x3093]"

definition msg_logged_out :: jsstring where
  \<comment> \<open>logged out (auth.ts line 219)\<close>
  "msg_logged_out =
    [0x30ED, 0x30B0, 0x30A2, 0x30A6, 0x30C8, 0x3057, 0x307E, 0x3057, 0x305F]"

definition msg_logout_failed :: jsstring where
  \<comment> \<open>logout failed (auth.ts line 227, context line 120)\<close>
  "msg_logout_failed =
    [0x30ED, 0x30B0, 0x30A2, 0x30A6, 0x30C8, 0x306B, 0x5931, 0x6557, 0x3057, 0x307E,
     0x3057, 0x305F]"

definition msg_reset_mail_sent :: jsstring where
  \<comment> \<open>password reset mail sent (auth.ts line 240)\<close>
  "msg_reset_mail_sent =
    [0x30D1, 0x30B9, 0x30EF, 0x30FC, 0x30C9, 0x30EA, 0x30BB, 0x30C3, 0x30C8, 0x30E1,
     0x30FC, 0x30EB, 0x3092, 0x9001, 0x4FE1, 0x3057, 0x307E, 0x3057, 0x305F]"

definition msg_reset_failed :: jsstring where
  \<comment> \<open>password reset failed (auth.ts lines 245 and 255, context line 135)\<close>
  "msg_reset_failed =
    [0x30D1, 0x30B9, 0x30EF, 0x30FC, 0x30C9, 0x30EA, 0x30BB, 0x30C3, 0x30C8, 0x306B,
     0x5931, 0x6557, 0x3057, 0x307E, 0x3057, 0x305F]"

definition msg_email_user_not_found :: jsstring where
  \<comment> \<open>no user with this e-mail address (auth.ts line 249)\<close>
  "msg_email_user_not_found =
    [0x3053, 0x306E, 0x30E1, 0x30FC, 0x30EB, 0x30A2, 0x30C9, 0x30EC, 0x30B9, 0x306E,
     0x30E6, 0x30FC, 0x30B6, 0x30FC, 0x304C, 0x898B, 0x3064, 0x304B, 0x308A, 0x307E,
     0x305B, 0x3093]"

definition msg_company_info_not_found :: jsstring where
  \<comment> \<open>company information not found (auth.ts line 275)\<close>
  "msg_company_info_not_found =
    [0x4F1A, 0x793E, 0x60C5, 0x5831, 0x304C, 0x898B, 0x3064, 0x304B, 0x308A, 0x307E,
     0x305B, 0x3093]"

definition msg_company_fetch_failed :: jsstring where
  \<comment> \<open>fetching the company information failed (auth.ts line 290, context line 61)\<close>
  "msg_company_fetch_failed =
    [0x4F1A, 0x793E, 0x60C5, 0x5831, 0x306E, 0x53D6, 0x5F97, 0x306B, 0x5931, 0x6557,
     0x3057, 0x307E, 0x3057, 0x305F]"

definition msg_no_list_permission :: jsstring where
  \<comment> \<open>no permission to see the user list of this company (auth.ts line 305)\<close>
  "msg_no_list_permission =
    [0x3053, 0x306E, 0x4F1A, 0x793E, 0x306E, 0x30E6, 0x30FC, 0x30B6, 0x30FC, 0x4E00,
     0x89A7, 0x3092, 0x898B, 0x308B, 0x6A29, 0x9650, 0x304C, 0x3042, 0x308A, 0x307E,
     0x305B, 0x3093]"

definition msg_users_fetch_failed :: jsstring where
  \<comment> \<open>fetching the user list failed (auth.ts line 330)\<close>
  "msg_users_fetch_failed =
    [0x30E6, 0x30FC, 0x30B6, 0x30FC, 0x4E00, 0x89A7, 0x306E, 0x53D6, 0x5F97, 0x306B,
     0x5931, 0x6557, 0x3057, 0x307E, 0x3057, 0x305F]"

definition msg_no_toggle_permission :: jsstring where
  \<comment> \<open>no permission to change user status (auth.ts line 346)\<close>
  "msg_no_toggle_permission =
    [0x30E6, 0x30FC, 0x30B6, 0x30FC, 0x72B6, 0x614B, 0x5909, 0x66F4, 0x6A29, 0x9650,
     0x304C, 0x3042, 0x308A, 0x307E, 0x305B, 0x3093]"

definition msg_user_not_found :: jsstring where
  \<comment> \<open>user not found (auth.ts line 352)\<close>
  "msg_user_not_found =
    [0x30E6, 0x30FC, 0x30B6, 0x30FC, 0x304C, 0x898B, 0x3064, 0x304B, 0x308A, 0x307E,
     0x305B, 0x3093]"

definition msg_other_company :: jsstring where
  \<comment> \<open>users of another company cannot be changed (auth.ts line 357)\<close>
  "msg_other_company =
    [0x7570, 0x306A, 0x308B, 0x4F1A, 0x793E, 0x306E, 0x30E6, 0x30FC, 0x30B6, 0x30FC,
     0x306F, 0x5909, 0x66F4, 0x3067, 0x304D, 0x307E, 0x305B, 0x3093]"

definition msg_self_toggle :: jsstring where
  \<comment> \<open>one's own account cannot be disabled (auth.ts line 362)\<close>
  "msg_self_toggle =
    [0x81EA, 0x5206, 0x81EA, 0x8EAB, 0x306E, 0x30A2, 0x30AB, 0x30A6, 0x30F3, 0x30C8,
     0x306F, 0x7121, 0x52B9, 0x5316, 0x3067, 0x304D, 0x307E, 0x305B, 0x3093]"

definition msg_user_enabled :: jsstring where
  \<comment> \<open>user enabled (template of line 372, isActive true) (auth.ts line 372)\<close>
  "msg_user_enabled =
    [0x30E6, 0x30FC, 0x30B6, 0x30FC, 0x3092, 0x6709, 0x52B9, 0x306B, 0x3057, 0x307E,
     0x3057, 0x305F]"

definition msg_user_disabled :: jsstring where
  \<comment> \<open>user disabled (template of line 372, isActive false) (auth.ts line 372)\<close>
  "msg_user_disabled =
    [0x30E6, 0x30FC, 0x30B6, 0x30FC, 0x3092, 0x7121, 0x52B9, 0x306B, 0x3057, 0x307E,
     0x3057, 0x305F]"

definition msg_toggle_failed :: jsstring where
  \<comment> \<open>changing the user status failed (auth.ts line 380)\<close>
  "msg_toggle_failed =
    [0x30E6, 0x30FC, 0x30B6, 0x30FC, 0x72B6, 0x614B, 0x306E, 0x5909, 0x66F4, 0x306B,
     0x5931, 0x6557, 0x3057, 0x307E, 0x3057, 0x305F]"

definition msg_auth_state_failed :: jsstring where
  \<comment> \<open>checking the authentication state failed (context line 69)\<close>
  "msg_auth_state_failed =
    [0x8A8D, 0x8A3C, 0x72B6, 0x614B, 0x306E, 0x78BA, 0x8A8D, 0x306B, 0x5931, 0x6557,
     0x3057, 0x307E, 0x3057, 0x305F]"

definition msg_login_process_error :: jsstring where
  \<comment> \<open>an error occurred while logging in (context line 93)\<close>
  "msg_login_process_error =
    [0x30ED, 0x30B0, 0x30A4, 0x30F3, 0x51E6, 0x7406, 0x3067, 0x30A8, 0x30E9, 0x30FC,
     0x304C, 0x767A, 0x751F, 0x3057, 0x307E, 0x3057, 0x305F]"

definition msg_reset_process_error :: jsstring where
  \<comment> \<open>an error occurred during password reset (context line 140)\<close>
  "msg_reset_process_error =
    [0x30D1, 0x30B9, 0x30EF, 0x30FC, 0x30C9, 0x30EA, 0x30BB, 0x30C3, 0x30C8, 0x51E6,
     0x7406, 0x3067, 0x30A8, 0x30E9, 0x30FC, 0x304C, 0x767A, 0x751F, 0x3057, 0x307E,
     0x3057, 0x305F]"

definition msg_email_required :: jsstring where
  \<comment> \<open>e-mail address is required (form line 252)\<close>
  "msg_email_required =
    [0x30E1, 0x30FC, 0x30EB, 0x30A2, 0x30C9, 0x30EC, 0x30B9, 0x306F, 0x5FC5, 0x9808,
     0x3067, 0x3059]"

definition msg_password_required :: jsstring where
  \<comment> \<open>password is required (form line 259)\<close>
  "msg_password_required =
    [0x30D1, 0x30B9, 0x30EF, 0x30FC, 0x30C9, 0x306F, 0x5FC5, 0x9808, 0x3067, 0x3059]"

definition msg_password_too_short :: jsstring where
  \<comment> \<open>enter a password of 6 characters or more (form line 261)\<close>
  "msg_password_too_short =
    [0x30D1, 0x30B9, 0x30EF, 0x30FC, 0x30C9, 0x306F, 0x0036, 0x6587, 0x5B57, 0x4EE5,
     0x4E0A, 0x3067, 0x5165, 0x529B, 0x3057, 0x3066, 0x304F, 0x3060, 0x3055, 0x3044]"

subsection \<open>Data model (src/types/index.ts)\<close>

text \<open>
  \<open>Timestamp\<close> is the interface of lines 3-6; \<open>ServerTimestamp\<close> stands for the
  sentinel returned by the SDK's \<open>serverTimestamp()\<close>, which the code stores where a
  timestamp is expected (\<open>serverTimestamp() as any\<close>).
\<close>

datatype Timestamp = Timestamp int int | ServerTimestamp

datatype UserRole = role_admin | role_user

datatype PlanType = plan_basic | plan_premium | plan_enterprise

record CompanySettings =
  monthly_usage_limit :: int
  api_usage_limit :: int
  max_users :: int
  storage_limit_gb :: int

text \<open>
  \<open>Company\<close> and \<open>User\<close> both have fields \<open>id\<close>, \<open>name\<close> and \<open>created_at\<close>;
  the company's fields carry the prefix \<open>company_\<close>, and the user's \<open>id\<close> is
  \<open>id'\<close> since \<open>id\<close> is the identity function of HOL.
\<close>

record Company =
  company_id' :: jsstring
  company_name :: jsstring
  company_plan :: PlanType
  company_created_at :: Timestamp
  company_updated_at :: Timestamp
  company_settings :: CompanySettings

record User =
  id' :: jsstring
  email :: jsstring
  name :: jsstring
  company_id :: jsstring
  role :: UserRole
  created_at :: Timestamp
  last_login :: "Timestamp option"
  is_active :: bool

record AuthUser = User +
  token :: "jsstring option"

text \<open>The object spread \<open>{ ...userData, token: t }\<close> of auth.ts lines 36-39 and 89-92.\<close>

definition with_token :: "User \<Rightarrow> jsstring \<Rightarrow> AuthUser" where
  "with_token userData t = User.extend userData (AuthUser.fields (Some t))"

text \<open>
  \<open>ApiError\<close> (lines 169-173; the optional \<open>details\<close> is never set by the code) and the
  outcome envelope \<open>ApiResponse\<close> (lines 162-167). An absent optional field is \<open>None\<close>.
\<close>

datatype ApiError = ApiError (code: jsstring) (message: jsstring)

record 'a ApiResponse =
  success :: bool
  data :: "'a option"
  error :: "ApiError option"
  message :: "jsstring option"

subsection \<open>Thrown values\<close>

text \<open>
  What a \<open>catch (error: any)\<close> block receives: an error object whose \<open>code\<close> and
  \<open>message\<close> properties the handlers read. \<open>new Error(m)\<close> has the message \<open>m\<close> and no
  \<open>code\<close>; the SDK rejects with error objects that carry both. \<open>x || d\<close> on a
  possibly undefined string takes \<open>d\<close> when \<open>x\<close> is undefined or empty.
\<close>

datatype js_error = js_error (err_code: "jsstring option") (err_message: "jsstring option")

definition new_Error :: "jsstring \<Rightarrow> js_error" where
  "new_Error m = js_error None (Some m)"

definition or_default :: "jsstring option \<Rightarrow> jsstring \<Rightarrow> jsstring" where
  "or_default x d = (case x of None \<Rightarrow> d | Some s \<Rightarrow> if s = [] then d else s)"

section \<open>The SDK boundary\<close>

text \<open>
  Every call of an SDK function that the sources await is recorded, with its arguments,
  in a trace. What the call answers is given by a \<open>backend\<close>: for each SDK function a
  reply (a value, or a rejection with an error object) that may depend on the calls made
  so far. \<open>doc(db, c, k)\<close>, \<open>collection\<close>, \<open>query\<close> and \<open>where\<close> only build
  references, so \<open>getDoc\<close>, \<open>setDoc\<close>, \<open>updateDoc\<close> and \<open>getDocs\<close> are recorded with
  the collection and key (or filter) they are given. The documents of \<open>users\<close> are read
  as \<open>User\<close> and those of \<open>companies\<close> as \<open>Company\<close> (the casts of the source), hence
  one typed reply per collection; a snapshot whose \<open>exists()\<close> is false is \<open>None\<close>.
  Three more entries record calls of functions that a module receives from its caller:
  \<open>Callback\<close> the observer passed to \<open>onAuthStateChange\<close>, \<open>Login\<close> the \<open>login\<close>
  that the login form obtains from the context, \<open>OnSuccess\<close> the form's success
  callback.
  \<open>console.error\<close> is not modelled.
\<close>

datatype FirebaseUser = FirebaseUser (uid: jsstring)

datatype UserCredential = UserCredential (user: FirebaseUser)

datatype field_value = FieldTimestamp Timestamp | FieldBool bool

datatype call =
    SignInWithEmailAndPassword jsstring jsstring
  | CreateUserWithEmailAndPassword jsstring jsstring
  | SignOut
  | SendPasswordResetEmail jsstring
  | UpdateProfile jsstring jsstring
  | GetIdToken jsstring
  | GetDoc jsstring jsstring
  | SetDoc jsstring jsstring User
  | UpdateDoc jsstring jsstring "(jsstring \<times> field_value) list"
  | GetDocs jsstring jsstring jsstring
  | Callback "AuthUser option"
  | Login jsstring jsstring
  | OnSuccess

record backend =
  reply_signInWithEmailAndPassword :: "call list \<Rightarrow> jsstring \<Rightarrow> jsstring \<Rightarrow> js_error + UserCredential"
  reply_createUserWithEmailAndPassword :: "call list \<Rightarrow> jsstring \<Rightarrow> jsstring \<Rightarrow> js_error + UserCredential"
  reply_signOut :: "call list \<Rightarrow> js_error + unit"
  reply_sendPasswordResetEmail :: "call list \<Rightarrow> jsstring \<Rightarrow> js_error + unit"
  reply_updateProfile :: "call list \<Rightarrow> jsstring \<Rightarrow> jsstring \<Rightarrow> js_error + unit"
  reply_getIdToken :: "call list \<Rightarrow> jsstring \<Rightarrow> js_error + jsstring"
  reply_getDoc_users :: "call list \<Rightarrow> jsstring \<Rightarrow> js_error + User option"
  reply_getDoc_companies :: "call list \<Rightarrow> jsstring \<Rightarrow> js_error + Company option"
  reply_setDoc :: "call list \<Rightarrow> jsstring \<Rightarrow> User \<Rightarrow> js_error + unit"
  reply_updateDoc :: "call list \<Rightarrow> jsstring \<Rightarrow> (jsstring \<times> field_value) list \<Rightarrow> js_error + unit"
  reply_getDocs_users :: "call list \<Rightarrow> jsstring \<Rightarrow> js_error + User list"

text \<open>
  An asynchronous computation takes the trace so far and gives back its outcome (\<open>Inl\<close>:
  it threw, or the awaited promise rejected) and the extended trace. \<open>bind_io\<close> is
  \<open>await\<close> followed by the rest of the block; \<open>try_catch\<close> is \<open>try { ... } catch (error) { ... }\<close>.
\<close>

type_synonym 'a io = "call list \<Rightarrow> (js_error + 'a) \<times> call list"

definition return_io :: "'a \<Rightarrow> 'a io" where
  "return_io x = (\<lambda>tr. (Inr x, tr))"

definition throw_io :: "js_error \<Rightarrow> 'a io" where
  "throw_io e = (\<lambda>tr. (Inl e, tr))"

definition bind_io :: "'a io \<Rightarrow> ('a \<Rightarrow> 'b io) \<Rightarrow> 'b io" where
  "bind_io m f = (\<lambda>tr. case m tr of (Inl e, tr') \<Rightarrow> (Inl e, tr') | (Inr x, tr') \<Rightarrow> f x tr')"

definition try_catch :: "'a io \<Rightarrow> (js_error \<Rightarrow> 'a io) \<Rightarrow> 'a io" where
  "try_catch m h = (\<lambda>tr. case m tr of (Inl e, tr') \<Rightarrow> h e tr' | (Inr x, tr') \<Rightarrow> (Inr x, tr'))"

definition signInWithEmailAndPassword :: "backend \<Rightarrow> jsstring \<Rightarrow> jsstring \<Rightarrow> UserCredential io" where
  "signInWithEmailAndPassword be e p =
     (\<lambda>tr. (reply_signInWithEmailAndPassword be tr e p, tr @ [SignInWithEmailAndPassword e p]))"

definition createUserWithEmailAndPassword :: "backend \<Rightarrow> jsstring \<Rightarrow> jsstring \<Rightarrow> UserCredential io" where
  "createUserWithEmailAndPassword be e p =
     (\<lambda>tr. (reply_createUserWithEmailAndPassword be tr e p, tr @ [CreateUserWithEmailAndPassword e p]))"

definition signOut :: "backend \<Rightarrow> unit io" where
  "signOut be = (\<lambda>tr. (reply_signOut be tr, tr @ [SignOut]))"

definition sendPasswordResetEmail :: "backend \<Rightarrow> jsstring \<Rightarrow> unit io" where
  "sendPasswordResetEmail be e = (\<lambda>tr. (reply_sendPasswordResetEmail be tr e, tr @ [SendPasswordResetEmail e]))"

definition updateProfile :: "backend \<Rightarrow> FirebaseUser \<Rightarrow> jsstring \<Rightarrow> unit io" where
  "updateProfile be u displayName =
     (\<lambda>tr. (reply_updateProfile be tr (uid u) displayName, tr @ [UpdateProfile (uid u) displayName]))"

definition getIdToken :: "backend \<Rightarrow> FirebaseUser \<Rightarrow> jsstring io" where
  "getIdToken be u = (\<lambda>tr. (reply_getIdToken be tr (uid u), tr @ [GetIdToken (uid u)]))"

definition getDoc_users :: "backend \<Rightarrow> jsstring \<Rightarrow> User option io" where
  "getDoc_users be k = (\<lambda>tr. (reply_getDoc_users be tr k, tr @ [GetDoc (js ''users'') k]))"

definition getDoc_companies :: "backend \<Rightarrow> jsstring \<Rightarrow> Company option io" where
  "getDoc_companies be k = (\<lambda>tr. (reply_getDoc_companies be tr k, tr @ [GetDoc (js ''companies'') k]))"

definition setDoc_users :: "backend \<Rightarrow> jsstring \<Rightarrow> User \<Rightarrow> unit io" where
  "setDoc_users be k u = (\<lambda>tr. (reply_setDoc be tr k u, tr @ [SetDoc (js ''users'') k u]))"

definition updateDoc_users :: "backend \<Rightarrow> jsstring \<Rightarrow> (jsstring \<times> field_value) list \<Rightarrow> unit io" where
  "updateDoc_users be k fs = (\<lambda>tr. (reply_updateDoc be tr k fs, tr @ [UpdateDoc (js ''users'') k fs]))"

definition getDocs_users_where_company_id :: "backend \<Rightarrow> jsstring \<Rightarrow> User list io" where
  "getDocs_users_where_company_id be c =
     (\<lambda>tr. (reply_getDocs_users be tr c, tr @ [GetDocs (js ''users'') (js ''company_id'') c]))"

section \<open>Auth actions (src/services/auth.ts)\<close>

subsection \<open>loginUser (lines 58-127)\<close>

text \<open>The \<open>switch (error.code)\<close> of lines 104-117.\<close>

definition login_error_message :: "js_error \<Rightarrow> jsstring" where
  "login_error_message err =
     (if err_code err = Some (js ''auth/user-not-found'') \<or> err_code err = Some (js ''auth/wrong-password'')
        then msg_bad_credentials
      else if err_code err = Some (js ''auth/too-many-requests'') then msg_too_many_requests
      else if err_code err = Some (js ''auth/user-disabled'') then msg_account_disabled
      else or_default (err_message err) msg_login_failed)"

definition loginUser :: "backend \<Rightarrow> jsstring \<Rightarrow> jsstring \<Rightarrow> AuthUser ApiResponse io" where
  "loginUser be email' password =
     try_catch
       (bind_io (signInWithEmailAndPassword be email' password) (\<lambda>userCredential.
        bind_io (getDoc_users be (uid (user userCredential))) (\<lambda>userDoc.
          case userDoc of
            None \<Rightarrow> throw_io (new_Error msg_user_info_not_found)
          | Some userData \<Rightarrow>
              if \<not> is_active userData
              then bind_io (signOut be) (\<lambda>_. throw_io (new_Error msg_account_disabled))
              else
                bind_io (updateDoc_users be (uid (user userCredential))
                           [(js ''last_login'', FieldTimestamp ServerTimestamp)]) (\<lambda>_.
                bind_io (getIdToken be (user userCredential)) (\<lambda>t.
                return_io \<lparr>success = True, data = Some (with_token userData t), error = None,
                            message = Some msg_login_succeeded\<rparr>)))))
       (\<lambda>err.
          return_io \<lparr>success = False, data = None,
                      error = Some (ApiError (or_default (err_code err) (js ''login-failed''))
                                             (login_error_message err)),
                      message = None\<rparr>)"

subsection \<open>createUser (lines 131-210)\<close>

record NewUserData =
  new_email :: jsstring
  new_password :: jsstring
  new_name :: jsstring
  new_company_id :: jsstring
  new_role :: UserRole

definition createUser_error_message :: "js_error \<Rightarrow> jsstring" where
  "createUser_error_message err =
     (if err_code err = Some (js ''auth/email-already-in-use'') then msg_email_in_use
      else if err_code err = Some (js ''auth/weak-password'') then msg_weak_password
      else if err_code err = Some (js ''auth/invalid-email'') then msg_invalid_email
      else or_default (err_message err) msg_user_creation_failed)"

definition createUser :: "backend \<Rightarrow> NewUserData \<Rightarrow> AuthUser \<Rightarrow> User ApiResponse io" where
  "createUser be userData currentUser =
     try_catch
       (if role currentUser \<noteq> role_admin then throw_io (new_Error msg_no_create_permission)
        else
          bind_io (getDoc_companies be (new_company_id userData)) (\<lambda>companyDoc.
            case companyDoc of
              None \<Rightarrow> throw_io (new_Error msg_company_not_found)
            | Some _ \<Rightarrow>
                bind_io (createUserWithEmailAndPassword be (new_email userData) (new_password userData))
                  (\<lambda>userCredential.
                bind_io (updateProfile be (user userCredential) (new_name userData)) (\<lambda>_.
                let newUser = \<lparr>id' = uid (user userCredential), email = new_email userData,
                                 name = new_name userData, company_id = new_company_id userData,
                                 role = new_role userData, created_at = ServerTimestamp,
                                 last_login = None, is_active = True\<rparr>
                in bind_io (setDoc_users be (uid (user userCredential)) newUser) (\<lambda>_.
                   return_io \<lparr>success = True, data = Some newUser, error = None,
                               message = Some msg_user_created\<rparr>)))))
       (\<lambda>err.
          return_io \<lparr>success = False, data = None,
                      error = Some (ApiError (or_default (err_code err) (js ''user-creation-failed''))
                                             (createUser_error_message err)),
                      message = None\<rparr>)"

subsection \<open>logoutUser (lines 214-231) and resetPassword (lines 235-266)\<close>

definition logoutUser :: "backend \<Rightarrow> unit ApiResponse io" where
  "logoutUser be =
     try_catch
       (bind_io (signOut be) (\<lambda>_.
        return_io \<lparr>success = True, data = None, error = None, message = Some msg_logged_out\<rparr>))
       (\<lambda>err.
          return_io \<lparr>success = False, data = None,
                      error = Some (ApiError (js ''logout-failed'') msg_logout_failed),
                      message = None\<rparr>)"

definition resetPassword_error_message :: "js_error \<Rightarrow> jsstring" where
  "resetPassword_error_message err =
     (if err_code err = Some (js ''auth/user-not-found'') then msg_email_user_not_found
      else if err_code err = Some (js ''auth/invalid-email'') then msg_invalid_email
      else or_default (err_message err) msg_reset_failed)"

definition resetPassword :: "backend \<Rightarrow> jsstring \<Rightarrow> unit ApiResponse io" where
  "resetPassword be email' =
     try_catch
       (bind_io (sendPasswordResetEmail be email') (\<lambda>_.
        return_io \<lparr>success = True, data = None, error = None, message = Some msg_reset_mail_sent\<rparr>))
       (\<lambda>err.
          return_io \<lparr>success = False, data = None,
                      error = Some (ApiError (or_default (err_code err) (js ''password-reset-failed''))
                                             (resetPassword_error_message err)),
                      message = None\<rparr>)"

subsection \<open>getCompanyData (lines 270-294) and getCompanyUsers (lines 298-334)\<close>

definition getCompanyData :: "backend \<Rightarrow> jsstring \<Rightarrow> Company ApiResponse io" where
  "getCompanyData be companyId =
     try_catch
       (bind_io (getDoc_companies be companyId) (\<lambda>companyDoc.
          case companyDoc of
            None \<Rightarrow> throw_io (new_Error msg_company_info_not_found)
          | Some companyData \<Rightarrow>
              return_io \<lparr>success = True, data = Some companyData, error = None, message = None\<rparr>))
       (\<lambda>err.
          return_io \<lparr>success = False, data = None,
                      error = Some (ApiError (js ''company-fetch-failed'')
                                             (or_default (err_message err) msg_company_fetch_failed)),
                      message = None\<rparr>)"

definition getCompanyUsers :: "backend \<Rightarrow> jsstring \<Rightarrow> AuthUser \<Rightarrow> User list ApiResponse io" where
  "getCompanyUsers be companyId currentUser =
     try_catch
       (if company_id currentUser \<noteq> companyId then throw_io (new_Error msg_no_list_permission)
        else
          bind_io (getDocs_users_where_company_id be companyId) (\<lambda>users.
          return_io \<lparr>success = True, data = Some users, error = None, message = None\<rparr>))
       (\<lambda>err.
          return_io \<lparr>success = False, data = None,
                      error = Some (ApiError (js ''users-fetch-failed'')
                                             (or_default (err_message err) msg_users_fetch_failed)),
                      message = None\<rparr>)"

subsection \<open>toggleUserStatus (lines 338-384)\<close>

definition toggleUserStatus :: "backend \<Rightarrow> jsstring \<Rightarrow> bool \<Rightarrow> AuthUser \<Rightarrow> unit ApiResponse io" where
  "toggleUserStatus be userId isActive currentUser =
     try_catch
       (if role currentUser \<noteq> role_admin then throw_io (new_Error msg_no_toggle_permission)
        else
          bind_io (getDoc_users be userId) (\<lambda>userDoc.
            case userDoc of
              None \<Rightarrow> throw_io (new_Error msg_user_not_found)
            | Some userData \<Rightarrow>
                if company_id userData \<noteq> company_id currentUser then throw_io (new_Error msg_other_company)
                else if userId = id' currentUser then throw_io (new_Error msg_self_toggle)
                else
                  bind_io (updateDoc_users be userId
                             [(js ''is_active'', FieldBool isActive),
                              (js ''updated_at'', FieldTimestamp ServerTimestamp)]) (\<lambda>_.
                  return_io \<lparr>success = True, data = None, error = None,
                              message = Some (if isActive then msg_user_enabled else msg_user_disabled)\<rparr>)))
       (\<lambda>err.
          return_io \<lparr>success = False, data = None,
                      error = Some (ApiError (js ''status-toggle-failed'')
                                             (or_default (err_message err) msg_toggle_failed)),
                      message = None\<rparr>)"

subsection \<open>The session watcher: onAuthStateChange (lines 27-54)\<close>

text \<open>
  \<open>onAuthStateChange callback\<close> registers a listener; the function below is that
  listener applied to one notification (\<open>firebaseUser\<close>, or \<open>None\<close> for \<open>null\<close>).
  The observer \<open>callback\<close> is code of the caller: its behaviour is a parameter that says,
  for the calls made so far and the argument, whether it returns or throws. The calls of
  \<open>callback\<close> in lines 40 and 44 are inside the \<open>try\<close> block, the one in line 48 is
  inside the \<open>catch\<close> block.
\<close>

type_synonym observer = "call list \<Rightarrow> AuthUser option \<Rightarrow> js_error + unit"

definition invoke :: "observer \<Rightarrow> AuthUser option \<Rightarrow> unit io" where
  "invoke callback u = (\<lambda>tr. (callback tr u, tr @ [Callback u]))"

definition onAuthStateChange :: "backend \<Rightarrow> observer \<Rightarrow> FirebaseUser option \<Rightarrow> unit io" where
  "onAuthStateChange be callback firebaseUser =
     (case firebaseUser of
        Some fu \<Rightarrow>
          try_catch
            (bind_io (getDoc_users be (uid fu)) (\<lambda>userDoc.
               case userDoc of
                 Some userData \<Rightarrow>
                   bind_io (getIdToken be fu) (\<lambda>t. invoke callback (Some (with_token userData t)))
               | None \<Rightarrow> bind_io (signOut be) (\<lambda>_. invoke callback None)))
            (\<lambda>err. invoke callback None)
      | None \<Rightarrow> invoke callback None)"

section \<open>The session context (AuthProvider, src/unnamed/part_000 lines 41-189)\<close>

text \<open>
  The four \<open>useState\<close> cells of \<open>AuthProvider\<close> form a record; a \<open>setX(v)\<close> is an
  update of the record. Each handler is modelled run to completion: it takes the state
  and the trace and gives back the state after its last \<open>set\<close> call. The \<open>finally\<close>
  blocks set \<open>loading\<close> to false on every path.
\<close>

record AuthState =
  user :: "AuthUser option"
  company :: "Company option"
  loading :: bool
  error :: "jsstring option"

definition initial_state :: AuthState where
  "initial_state = \<lparr>user = None, company = None, loading = True, error = None\<rparr>"

text \<open>The observer given to \<open>onAuthStateChange\<close> in the effect of lines 49-76.\<close>

definition authStateCallback :: "backend \<Rightarrow> AuthUser option \<Rightarrow> AuthState \<Rightarrow> call list \<Rightarrow> AuthState \<times> call list" where
  "authStateCallback be authUser st tr =
     (case authUser of
        Some au \<Rightarrow>
          (let st1 = st\<lparr>user := Some au\<rparr> in
           case getCompanyData be (company_id au) tr of
             (Inr companyResult, tr') \<Rightarrow>
               if success companyResult \<and> data companyResult \<noteq> None
               then (st1\<lparr>company := data companyResult, loading := False\<rparr>, tr')
               else (st1\<lparr>error := Some msg_company_fetch_failed, loading := False\<rparr>, tr')
           | (Inl err, tr') \<Rightarrow> (st1\<lparr>error := Some msg_auth_state_failed, loading := False\<rparr>, tr'))
      | None \<Rightarrow> (st\<lparr>user := None, company := None, loading := False\<rparr>, tr))"

text \<open>\<open>login\<close> (lines 80-106): returns the envelope together with the state.\<close>

definition login :: "backend \<Rightarrow> jsstring \<Rightarrow> jsstring \<Rightarrow> AuthState \<Rightarrow> call list
    \<Rightarrow> (AuthUser ApiResponse \<times> AuthState) \<times> call list" where
  "login be email' password st tr =
     (let st1 = st\<lparr>loading := True, error := None\<rparr> in
      case loginUser be email' password tr of
        (Inr result, tr') \<Rightarrow>
          ((result,
            (if \<not> success result
             then st1\<lparr>error := Some (or_default (map_option ApiError.message (ApiResponse.error result))
                                                msg_login_failed)\<rparr>
             else st1)\<lparr>loading := False\<rparr>), tr')
      | (Inl err, tr') \<Rightarrow>
          ((\<lparr>success = False, data = None,
             error = Some (ApiError (js ''login-error'') msg_login_process_error), message = None\<rparr>,
            st1\<lparr>error := Some msg_login_process_error, loading := False\<rparr>), tr'))"

text \<open>\<open>logout\<close> (lines 110-124).\<close>

definition logout :: "backend \<Rightarrow> AuthState \<Rightarrow> call list \<Rightarrow> AuthState \<times> call list" where
  "logout be st tr =
     (let st1 = st\<lparr>loading := True, error := None\<rparr> in
      case logoutUser be tr of
        (Inr _, tr') \<Rightarrow> (st1\<lparr>user := None, company := None, loading := False\<rparr>, tr')
      | (Inl err, tr') \<Rightarrow> (st1\<lparr>error := Some msg_logout_failed, loading := False\<rparr>, tr'))"

text \<open>\<open>sendPasswordReset\<close> (lines 128-151) and \<open>clearError\<close> (lines 155-157).\<close>

definition sendPasswordReset :: "backend \<Rightarrow> jsstring \<Rightarrow> AuthState \<Rightarrow> call list
    \<Rightarrow> (unit ApiResponse \<times> AuthState) \<times> call list" where
  "sendPasswordReset be email' st tr =
     (let st1 = st\<lparr>error := None\<rparr> in
      case resetPassword be email' tr of
        (Inr result, tr') \<Rightarrow>
          ((result,
            if \<not> success result
            then st1\<lparr>error := Some (or_default (map_option ApiError.message (ApiResponse.error result))
                                               msg_reset_failed)\<rparr>
            else st1), tr')
      | (Inl err, tr') \<Rightarrow>
          ((\<lparr>success = False, data = None,
             error = Some (ApiError (js ''password-reset-error'') msg_reset_process_error), message = None\<rparr>,
            st1\<lparr>error := Some msg_reset_process_error\<rparr>), tr'))"

definition clearError :: "AuthState \<Rightarrow> AuthState" where
  "clearError st = st\<lparr>error := None\<rparr>"

definition isAuthenticated :: "AuthState \<Rightarrow> bool" where
  "isAuthenticated st = (user st \<noteq> None)"

definition isAdmin :: "AuthState \<Rightarrow> bool" where
  "isAdmin st = (case user st of None \<Rightarrow> False | Some u \<Rightarrow> role u = role_admin)"

subsection \<open>Reachable states\<close>

text \<open>
  The context changes state when the watcher invokes the observer and when a consumer
  calls one of the exposed functions. \<open>run\<close> composes the handlers serially: each one
  runs to completion, starting from the initial state with an empty trace, before the next
  one begins. These are the runs in which no handler starts while another one is
  suspended at an \<open>await\<close>. The watcher does not await the observer (auth.ts line 40),
  so the program also has runs in which a later notification or a logout overtakes a
  pending tenant fetch; \<open>run\<close> does not describe those.
\<close>

datatype context_event =
    AuthStateChanged "AuthUser option"
  | LoginCalled jsstring jsstring
  | LogoutCalled
  | SendPasswordResetCalled jsstring
  | ClearErrorCalled

fun step :: "backend \<Rightarrow> AuthState \<times> call list \<Rightarrow> context_event \<Rightarrow> AuthState \<times> call list" where
  "step be (st, tr) (AuthStateChanged authUser) = authStateCallback be authUser st tr"
| "step be (st, tr) (LoginCalled e p) = (snd (fst (login be e p st tr)), snd (login be e p st tr))"
| "step be (st, tr) LogoutCalled = logout be st tr"
| "step be (st, tr) (SendPasswordResetCalled e) =
     (snd (fst (sendPasswordReset be e st tr)), snd (sendPasswordReset be e st tr))"
| "step be (st, tr) ClearErrorCalled = (clearError st, tr)"

definition run :: "backend \<Rightarrow> context_event list \<Rightarrow> AuthState \<times> call list" where
  "run be evs = foldl (step be) (initial_state, []) evs"

section \<open>Fixtures\<close>

text \<open>
  Concrete users and backends in the manner of the repository's tests
  (src/__tests__/services/auth.test.ts): every SDK call of \<open>fixture_backend\<close> resolves,
  and the variants change one reply each.
\<close>

definition fixture_user :: User where
  "fixture_user =
     \<lparr>id' = js ''test-user-id'', email = js ''test@example.com'', name = js ''Test User'',
      company_id = js ''test-company-id'', role = role_user,
      created_at = Timestamp 1640995200 0, last_login = None, is_active = True\<rparr>"

definition fixture_admin :: User where
  "fixture_admin =
     fixture_user\<lparr>id' := js ''test-admin-id'', email := js ''admin@example.com'',
                  name := js ''Admin'', role := role_admin\<rparr>"

definition fixture_company :: Company where
  "fixture_company =
     \<lparr>company_id' = js ''test-company-id'', company_name = js ''Test Company'',
      company_plan = plan_premium, company_created_at = Timestamp 1640995200 0,
      company_updated_at = Timestamp 1640995200 0,
      company_settings = \<lparr>monthly_usage_limit = 50, api_usage_limit = 300, max_users = 10,
                           storage_limit_gb = 5\<rparr>\<rparr>"

definition fixture_new_user :: NewUserData where
  "fixture_new_user =
     \<lparr>new_email = js ''newuser@example.com'', new_password = js ''password123'',
      new_name = js ''New User'', new_company_id = js ''test-company-id'', new_role = role_user\<rparr>"

definition fixture_backend :: backend where
  "fixture_backend =
     \<lparr>reply_signInWithEmailAndPassword = (\<lambda>tr e p. Inr (UserCredential (FirebaseUser (js ''test-user-id'')))),
      reply_createUserWithEmailAndPassword = (\<lambda>tr e p. Inr (UserCredential (FirebaseUser (js ''new-user-id'')))),
      reply_signOut = (\<lambda>tr. Inr ()),
      reply_sendPasswordResetEmail = (\<lambda>tr e. Inr ()),
      reply_updateProfile = (\<lambda>tr u n. Inr ()),
      reply_getIdToken = (\<lambda>tr u. Inr (js ''mock-token'')),
      reply_getDoc_users = (\<lambda>tr k. Inr (if k = js ''test-admin-id'' then Some fixture_admin
                                           else if k = js ''test-user-id'' then Some fixture_user
                                           else None)),
      reply_getDoc_companies = (\<lambda>tr k. Inr (if k = js ''test-company-id'' then Some fixture_company else None)),
      reply_setDoc = (\<lambda>tr k u. Inr ()),
      reply_updateDoc = (\<lambda>tr k fs. Inr ()),
      reply_getDocs_users = (\<lambda>tr c. Inr (if c = js ''test-company-id'' then [fixture_user, fixture_admin] else []))\<rparr>"

definition fixture_unavailable :: js_error where
  "fixture_unavailable = js_error (Some (js ''unavailable'')) (Some (js ''The service is currently unavailable.''))"

definition fixture_backend_inactive :: backend where
  "fixture_backend_inactive =
     fixture_backend\<lparr>reply_getDoc_users := (\<lambda>tr k. Inr (Some (fixture_user\<lparr>is_active := False\<rparr>)))\<rparr>"

definition fixture_backend_inactive_signOut_fails :: backend where
  "fixture_backend_inactive_signOut_fails =
     fixture_backend_inactive\<lparr>reply_signOut := (\<lambda>tr. Inl fixture_unavailable)\<rparr>"

definition fixture_backend_stamp_fails :: backend where
  "fixture_backend_stamp_fails = fixture_backend\<lparr>reply_updateDoc := (\<lambda>tr k fs. Inl fixture_unavailable)\<rparr>"

definition fixture_backend_signOut_fails :: backend where
  "fixture_backend_signOut_fails = fixture_backend\<lparr>reply_signOut := (\<lambda>tr. Inl fixture_unavailable)\<rparr>"

text \<open>Two observers: one that always returns, one that throws when it is given a session user.\<close>

definition fixture_observer :: observer where
  "fixture_observer = (\<lambda>tr u. Inr ())"

definition fixture_observer_throwing :: observer where
  "fixture_observer_throwing =
     (\<lambda>tr u. case u of Some _ \<Rightarrow> Inl (new_Error (js ''render failed'')) | None \<Rightarrow> Inr ())"

text \<open>A backend without the identity record, and one whose directory read is rejected.\<close>

definition fixture_backend_orphan :: backend where
  "fixture_backend_orphan = fixture_backend\<lparr>reply_getDoc_users := (\<lambda>tr k. Inr None)\<rparr>"

definition fixture_backend_directory_down :: backend where
  "fixture_backend_directory_down = fixture_backend\<lparr>reply_getDoc_users := (\<lambda>tr k. Inl fixture_unavailable)\<rparr>"

text \<open>
  Two session users of different tenants. The fixture backend has the company document of
  the first tenant only, so the tenant fetch for the second user fails.
\<close>

definition fixture_session_user :: AuthUser where
  "fixture_session_user = with_token fixture_user (js ''mock-token'')"

definition fixture_other_session_user :: AuthUser where
  "fixture_other_session_user =
     with_token (fixture_user\<lparr>id' := js ''other-user-id'', email := js ''other@example.org'',
                              company_id := js ''other-company-id''\<rparr>) (js ''other-token'')"

section \<open>The login form controller (useLoginForm, src/unnamed/part_000 lines 235-309)\<close>

subsection \<open>The regular expression of line 253\<close>

text \<open>
  The pattern \<open>/^[^\s@]+@[^\s@]+\.[^\s@]+$/\<close> has no flags, so it works on UTF-16 code
  units, and it is anchored at both ends, so \<open>test\<close> decides whether the whole string
  matches. Patterns are built from classes of code units by alternative, sequence and
  repetition; a string is matched by taking, code unit by code unit, the pattern that the
  rest of the string has to match.
\<close>

datatype pattern =
    Fail
  | Empty
  | Unit "16 word \<Rightarrow> bool"
  | Alt pattern pattern
  | Seq pattern pattern
  | Star pattern

primrec accepts_empty :: "pattern \<Rightarrow> bool" where
  "accepts_empty Fail = False"
| "accepts_empty Empty = True"
| "accepts_empty (Unit P) = False"
| "accepts_empty (Alt p q) = (accepts_empty p \<or> accepts_empty q)"
| "accepts_empty (Seq p q) = (accepts_empty p \<and> accepts_empty q)"
| "accepts_empty (Star p) = True"

primrec rest_after :: "16 word \<Rightarrow> pattern \<Rightarrow> pattern" where
  "rest_after c Fail = Fail"
| "rest_after c Empty = Fail"
| "rest_after c (Unit P) = (if P c then Empty else Fail)"
| "rest_after c (Alt p q) = Alt (rest_after c p) (rest_after c q)"
| "rest_after c (Seq p q) =
     (if accepts_empty p then Alt (Seq (rest_after c p) q) (rest_after c q)
      else Seq (rest_after c p) q)"
| "rest_after c (Star p) = Seq (rest_after c p) (Star p)"

primrec test_anchored :: "pattern \<Rightarrow> jsstring \<Rightarrow> bool" where
  "test_anchored p [] = accepts_empty p"
| "test_anchored p (c # cs) = test_anchored (rest_after c p) cs"

definition one_or_more :: "pattern \<Rightarrow> pattern" where
  "one_or_more p = Seq p (Star p)"

text \<open>
  The class \<open>\s\<close> of ECMAScript: the white space code units (TAB, VT, FF, SP, NBSP,
  ZWNBSP and the other space separators) and the line terminators (LF, CR, LS, PS).
\<close>

definition is_space :: "16 word \<Rightarrow> bool" where
  "is_space c =
     (c = 0x09 \<or> c = 0x0A \<or> c = 0x0B \<or> c = 0x0C \<or> c = 0x0D \<or> c = 0x20 \<or> c = 0xA0 \<or>
      c = 0x1680 \<or> (0x2000 \<le> c \<and> c \<le> 0x200A) \<or> c = 0x2028 \<or> c = 0x2029 \<or> c = 0x202F \<or>
      c = 0x205F \<or> c = 0x3000 \<or> c = 0xFEFF)"

definition not_space_or_at :: "16 word \<Rightarrow> bool" where
  "not_space_or_at c = (\<not> is_space c \<and> c \<noteq> 0x40)"

definition email_pattern :: pattern where
  "email_pattern =
     Seq (one_or_more (Unit not_space_or_at))
      (Seq (Unit (\<lambda>c. c = 0x40))
        (Seq (one_or_more (Unit not_space_or_at))
          (Seq (Unit (\<lambda>c. c = 0x2E))
            (one_or_more (Unit not_space_or_at)))))"

subsection \<open>What a pattern matches\<close>

text \<open>
  The set of strings a pattern stands for, against which the matcher above is checked:
  \<open>repeated A\<close> holds the concatenations of finitely many strings of \<open>A\<close>.
\<close>

inductive_set repeated :: "jsstring set \<Rightarrow> jsstring set" for A :: "jsstring set" where
  none: "[] \<in> repeated A"
| more: "u \<in> A \<Longrightarrow> v \<in> repeated A \<Longrightarrow> u @ v \<in> repeated A"

primrec matched :: "pattern \<Rightarrow> jsstring set" where
  "matched Fail = {}"
| "matched Empty = {[]}"
| "matched (Unit P) = {[c] | c. P c}"
| "matched (Alt p q) = matched p \<union> matched q"
| "matched (Seq p q) = {u @ v | u v. u \<in> matched p \<and> v \<in> matched q}"
| "matched (Star p) = repeated (matched p)"

subsection \<open>State, validateForm (lines 247-266) and handleSubmit (lines 281-299)\<close>

text \<open>
  \<open>LoginForm\<close> (src/types/index.ts lines 176-179) has the fields \<open>email\<close> and
  \<open>password\<close>; the \<open>errors\<close> of the form are a \<open>Partial<LoginForm>\<close>, the same fields,
  each optional. Both are instances of one record of two fields.
\<close>

record 'a LoginForm_fields =
  email :: 'a
  password :: 'a

type_synonym LoginForm = "jsstring LoginForm_fields"

type_synonym Partial_LoginForm = "jsstring option LoginForm_fields"

record LoginFormState =
  "values" :: LoginForm
  errors :: Partial_LoginForm
  isSubmitting :: bool

text \<open>
  \<open>validateForm\<close> stores the new errors and returns whether the object of new errors has
  no key. \<open>!s\<close> on a string holds for the empty string.
\<close>

definition validateForm :: "LoginFormState \<Rightarrow> bool \<times> LoginFormState" where
  "validateForm st =
     (let newErrors =
            \<lparr>email = (if email (values st) = [] then Some msg_email_required
                       else if \<not> test_anchored email_pattern (email (values st)) then Some msg_invalid_email
                       else None),
             password = (if password (values st) = [] then Some msg_password_required
                          else if length (password (values st)) < 6 then Some msg_password_too_short
                          else None)\<rparr>
      in (email newErrors = None \<and> password newErrors = None, st\<lparr>errors := newErrors\<rparr>))"

text \<open>
  \<open>handleSubmit\<close> calls two functions of its callers: \<open>login\<close>, obtained from the
  context through \<open>useAuth()\<close>, and the optional \<open>onSuccess\<close>. As for the watcher's
  observer, their behaviour is a parameter and their invocations are recorded.
\<close>

type_synonym login_function = "call list \<Rightarrow> jsstring \<Rightarrow> jsstring \<Rightarrow> js_error + AuthUser ApiResponse"

type_synonym success_function = "call list \<Rightarrow> js_error + unit"

definition invoke_login :: "login_function \<Rightarrow> jsstring \<Rightarrow> jsstring \<Rightarrow> AuthUser ApiResponse io" where
  "invoke_login login' e p = (\<lambda>tr. (login' tr e p, tr @ [Login e p]))"

definition invoke_onSuccess :: "success_function option \<Rightarrow> unit io" where
  "invoke_onSuccess onSuccess =
     (case onSuccess of None \<Rightarrow> return_io () | Some f \<Rightarrow> (\<lambda>tr. (f tr, tr @ [OnSuccess])))"

definition handleSubmit :: "login_function \<Rightarrow> success_function option \<Rightarrow> LoginFormState \<Rightarrow> call list
    \<Rightarrow> LoginFormState \<times> call list" where
  "handleSubmit login' onSuccess st tr =
     (case validateForm st of
        (valid, st1) \<Rightarrow>
          if \<not> valid then (st1, tr)
          else
            (let st2 = st1\<lparr>isSubmitting := True\<rparr> in
             case try_catch
                    (bind_io (invoke_login login' (email (values st)) (password (values st))) (\<lambda>result.
                       if success result then invoke_onSuccess onSuccess else return_io ()))
                    (\<lambda>err. return_io ()) tr of
               (_, tr') \<Rightarrow> (st2\<lparr>isSubmitting := False\<rparr>, tr')))"

section \<open>Properties of envelopes\<close>

text \<open>The invariant of the outcome envelope: no error on success, no data on failure.\<close>

definition envelope_ok :: "'a ApiResponse \<Rightarrow> bool" where
  "envelope_ok r = ((success r \<longrightarrow> ApiResponse.error r = None) \<and> (\<not> success r \<longrightarrow> data r = None))"

section \<open>Properties of the watcher\<close>

text \<open>The arguments of the observer's invocations recorded in a trace, in order.\<close>

fun callback_invocations :: "call list \<Rightarrow> AuthUser option list" where
  "callback_invocations [] = []"
| "callback_invocations (Callback u # cs) = u # callback_invocations cs"
| "callback_invocations (_ # cs) = callback_invocations cs"

text \<open>An observer that returns normally whenever it is invoked.\<close>

definition returns_normally :: "observer \<Rightarrow> bool" where
  "returns_normally callback = (\<forall>tr u. callback tr u = Inr ())"

section \<open>Properties of the session context\<close>

text \<open>
  The tenant fetch that the observer makes for a session user, at a given trace, succeeds
  when \<open>getCompanyData\<close> returns an envelope with \<open>success = true\<close>.
\<close>

definition tenant_fetch_succeeds :: "backend \<Rightarrow> AuthUser \<Rightarrow> call list \<Rightarrow> bool" where
  "tenant_fetch_succeeds be au tr =
     (case fst (getCompanyData be (company_id au) tr) of Inr r \<Rightarrow> success r | Inl _ \<Rightarrow> False)"

text \<open>
  A history variable beside the run of the context: the outcomes of the tenant fetches
  made since the session was last cleared (by a notification without a user or by a
  logout), oldest first.
\<close>

fun watch_step :: "backend \<Rightarrow> (AuthState \<times> call list) \<times> bool list \<Rightarrow> context_event
    \<Rightarrow> (AuthState \<times> call list) \<times> bool list" where
  "watch_step be (c, fs) ev =
     (step be c ev,
      case ev of
        AuthStateChanged (Some au) \<Rightarrow> fs @ [tenant_fetch_succeeds be au (snd c)]
      | AuthStateChanged None \<Rightarrow> []
      | LogoutCalled \<Rightarrow> []
      | _ \<Rightarrow> fs)"

definition tenant_fetches :: "backend \<Rightarrow> context_event list \<Rightarrow> bool list" where
  "tenant_fetches be evs = snd (foldl (watch_step be) ((initial_state, []), []) evs)"

text \<open>The two readings of "the tenant fetch succeeded": the most recent one, or some one.\<close>

definition most_recent_tenant_fetch_succeeded :: "backend \<Rightarrow> context_event list \<Rightarrow> bool" where
  "most_recent_tenant_fetch_succeeded be evs =
     (tenant_fetches be evs \<noteq> [] \<and> last (tenant_fetches be evs))"

definition some_tenant_fetch_succeeded :: "backend \<Rightarrow> context_event list \<Rightarrow> bool" where
  "some_tenant_fetch_succeeded be evs = (True \<in> set (tenant_fetches be evs))"

section \<open>Properties of the login form\<close>

text \<open>The arguments of the invocations of \<open>login\<close> recorded in a trace, in order.\<close>

fun login_invocations :: "call list \<Rightarrow> (jsstring \<times> jsstring) list" where
  "login_invocations [] = []"
| "login_invocations (Login e p # cs) = (e, p) # login_invocations cs"
| "login_invocations (_ # cs) = login_invocations cs"

section \<open>Auxiliary facts\<close>

lemmas io_defs = try_catch_def bind_io_def return_io_def throw_io_def

lemmas sdk_defs = signInWithEmailAndPassword_def createUserWithEmailAndPassword_def signOut_def
  sendPasswordResetEmail_def updateProfile_def getIdToken_def getDoc_users_def getDoc_companies_def
  setDoc_users_def updateDoc_users_def getDocs_users_where_company_id_def

lemmas fixture_defs = fixture_backend_def fixture_backend_inactive_def fixture_backend_stamp_fails_def
  fixture_backend_signOut_fails_def fixture_user_def fixture_admin_def fixture_company_def
  fixture_new_user_def fixture_unavailable_def

text \<open>Every auth action returns an envelope, whatever the backend answers, and the envelope is well formed.\<close>

lemma loginUser_envelope: "\<exists>r. fst (loginUser be e p tr) = Inr r \<and> envelope_ok r"
  by (simp add: loginUser_def io_defs sdk_defs envelope_ok_def split: sum.splits option.splits prod.splits)

lemma createUser_envelope: "\<exists>r. fst (createUser be d cu tr) = Inr r \<and> envelope_ok r"
  by (simp add: createUser_def io_defs sdk_defs envelope_ok_def Let_def
           split: sum.splits option.splits prod.splits)

lemma logoutUser_envelope: "\<exists>r. fst (logoutUser be tr) = Inr r \<and> envelope_ok r"
  by (simp add: logoutUser_def io_defs sdk_defs envelope_ok_def split: sum.splits)

lemma resetPassword_envelope: "\<exists>r. fst (resetPassword be e tr) = Inr r \<and> envelope_ok r"
  by (simp add: resetPassword_def io_defs sdk_defs envelope_ok_def split: sum.splits)

lemma getCompanyData_envelope: "\<exists>r. fst (getCompanyData be c tr) = Inr r \<and> envelope_ok r"
  by (simp add: getCompanyData_def io_defs sdk_defs envelope_ok_def split: sum.splits option.splits)

lemma getCompanyUsers_envelope: "\<exists>r. fst (getCompanyUsers be c cu tr) = Inr r \<and> envelope_ok r"
  by (simp add: getCompanyUsers_def io_defs sdk_defs envelope_ok_def split: sum.splits)

lemma toggleUserStatus_envelope: "\<exists>r. fst (toggleUserStatus be u a cu tr) = Inr r \<and> envelope_ok r"
  by (simp add: toggleUserStatus_def io_defs sdk_defs envelope_ok_def
           split: sum.splits option.splits prod.splits)

lemma or_default_simps [simp]:
  "or_default None d = d" "or_default (Some []) d = d" "s \<noteq> [] \<Longrightarrow> or_default (Some s) d = s"
  by (simp_all add: or_default_def)

section \<open>The outcome envelope\<close>

text \<open>
  Claim C1. Each of the seven auth actions (loginUser, createUser, logoutUser,
  resetPassword, getCompanyData, getCompanyUsers, toggleUserStatus), on every input, every
  backend and every history of calls, returns an envelope (it does not throw), and in that
  envelope \<open>success = true\<close> implies that \<open>error\<close> is absent and \<open>success = false\<close>
  implies that \<open>data\<close> is absent.
\<close>

theorem C1_envelope_invariant:
  "(\<exists>r. fst (loginUser be e p tr) = Inr r \<and> envelope_ok r) \<and>
   (\<exists>r. fst (createUser be d cu tr) = Inr r \<and> envelope_ok r) \<and>
   (\<exists>r. fst (logoutUser be tr) = Inr r \<and> envelope_ok r) \<and>
   (\<exists>r. fst (resetPassword be e tr) = Inr r \<and> envelope_ok r) \<and>
   (\<exists>r. fst (getCompanyData be c tr) = Inr r \<and> envelope_ok r) \<and>
   (\<exists>r. fst (getCompanyUsers be c cu tr) = Inr r \<and> envelope_ok r) \<and>
   (\<exists>r. fst (toggleUserStatus be u a cu tr) = Inr r \<and> envelope_ok r)"
  by (intro conjI loginUser_envelope createUser_envelope logoutUser_envelope resetPassword_envelope
        getCompanyData_envelope getCompanyUsers_envelope toggleUserStatus_envelope)

text \<open>
  On the all-resolving fixture, the login of the ordinary user succeeds and carries no
  error, and the same user's attempt to create a user fails and carries no data.
\<close>

theorem C1_envelope_invariant_witness:
  "(\<exists>r. fst (loginUser fixture_backend (js ''test@example.com'') (js ''password123'') []) = Inr r
        \<and> success r \<and> ApiResponse.error r = None) \<and>
   (\<exists>r. fst (createUser fixture_backend fixture_new_user (with_token fixture_user (js ''mock-token'')) [])
          = Inr r \<and> \<not> success r \<and> data r = None)"
proof -
  let ?l = "loginUser fixture_backend (js ''test@example.com'') (js ''password123'') []"
  let ?c = "createUser fixture_backend fixture_new_user (with_token fixture_user (js ''mock-token'')) []"
  from C1_envelope_invariant [of fixture_backend "js ''test@example.com''" "js ''password123''" "[]"
      fixture_new_user "with_token fixture_user (js ''mock-token'')"]
  obtain r1 r2 where r1: "fst ?l = Inr r1" "envelope_ok r1" and r2: "fst ?c = Inr r2" "envelope_ok r2"
    by blast
  have s1: "success r1"
    using r1(1) by (auto simp: loginUser_def io_defs sdk_defs fixture_defs js_def)
  have s2: "\<not> success r2"
    using r2(1) by (auto simp: createUser_def io_defs with_token_def User.extend_def fixture_defs)
  from r1 s1 r2 s2 show ?thesis by (auto simp: envelope_ok_def)
qed

section \<open>Login\<close>

text \<open>
  Claim C2, as stated, fails. On the fixture whose identity record is inactive, the sign-in
  succeeds, the record is found, and loginUser answers with the error code
  \<open>login-failed\<close> (the thrown \<open>Error\<close> has no \<open>code\<close>, so line 122 takes the
  default), which is not \<open>account-inactive\<close>.
\<close>

theorem C2_account_inactive_code_counterexample:
  "loginUser fixture_backend_inactive (js ''test@example.com'') (js ''password123'') [] =
     (Inr \<lparr>success = False, data = None,
            ApiResponse.error = Some (ApiError (js ''login-failed'') msg_account_disabled), message = None\<rparr>,
      [SignInWithEmailAndPassword (js ''test@example.com'') (js ''password123''),
       GetDoc (js ''users'') (js ''test-user-id''), SignOut])
   \<and> js ''login-failed'' \<noteq> js ''account-inactive''"
  by (simp add: loginUser_def io_defs sdk_defs fixture_defs login_error_message_def new_Error_def
        msg_account_disabled_def js_def)

text \<open>
  Claim C2, amended. When the sign-in succeeds and the identity record exists with
  \<open>is_active = false\<close>, loginUser makes exactly the calls sign-in, record read and
  \<open>signOut\<close>, in this order, and then returns an envelope with \<open>success = false\<close>.
  with no data. If the \<open>signOut\<close> resolves, the error has the code \<open>login-failed\<close>
  and the message "this account has been disabled"; if it is rejected with an error
  \<open>x\<close>, the error is the one that the \<open>catch\<close> block maps from \<open>x\<close>: the code of
  \<open>x\<close>, or \<open>login-failed\<close> when \<open>x\<close> has none, and the message chosen by the
  \<open>switch\<close> of lines 104-117.
\<close>

theorem C2_login_inactive_revokes_and_fails:
  assumes "reply_signInWithEmailAndPassword be tr e p = Inr cred"
    and "reply_getDoc_users be (tr @ [SignInWithEmailAndPassword e p]) (uid (UserCredential.user cred)) = Inr (Some userData)"
    and "\<not> is_active userData"
  shows "\<exists>r. loginUser be e p tr =
              (Inr r, tr @ [SignInWithEmailAndPassword e p, GetDoc (js ''users'') (uid (UserCredential.user cred)), SignOut])
           \<and> \<not> success r
           \<and> data r = None
           \<and> (reply_signOut be (tr @ [SignInWithEmailAndPassword e p, GetDoc (js ''users'') (uid (UserCredential.user cred))]) = Inr ()
                \<longrightarrow> ApiResponse.error r = Some (ApiError (js ''login-failed'') msg_account_disabled))
           \<and> (reply_signOut be (tr @ [SignInWithEmailAndPassword e p, GetDoc (js ''users'') (uid (UserCredential.user cred))]) = Inl x
                \<longrightarrow> ApiResponse.error r =
                      Some (ApiError (or_default (err_code x) (js ''login-failed'')) (login_error_message x)))"
proof (cases "reply_signOut be (tr @ [SignInWithEmailAndPassword e p, GetDoc (js ''users'') (uid (UserCredential.user cred))])")
  case (Inl y)
  with assms show ?thesis
    by (simp add: loginUser_def io_defs sdk_defs)
next
  case (Inr u)
  with assms show ?thesis
    by (simp add: loginUser_def io_defs sdk_defs login_error_message_def new_Error_def
          msg_account_disabled_def)
qed

text \<open>
  Both cases on fixtures with an inactive record: the \<open>signOut\<close> resolves, and the
  \<open>signOut\<close> is rejected with the code \<open>unavailable\<close>.
\<close>

theorem C2_login_inactive_revokes_and_fails_witness:
  "(\<exists>r. loginUser fixture_backend_inactive (js ''test@example.com'') (js ''password123'') [] =
          (Inr r, [SignInWithEmailAndPassword (js ''test@example.com'') (js ''password123''),
                   GetDoc (js ''users'') (js ''test-user-id''), SignOut])
       \<and> \<not> success r
       \<and> ApiResponse.error r = Some (ApiError (js ''login-failed'') msg_account_disabled)) \<and>
   (\<exists>r. loginUser fixture_backend_inactive_signOut_fails (js ''test@example.com'') (js ''password123'') [] =
          (Inr r, [SignInWithEmailAndPassword (js ''test@example.com'') (js ''password123''),
                   GetDoc (js ''users'') (js ''test-user-id''), SignOut])
       \<and> \<not> success r
       \<and> ApiResponse.error r =
             Some (ApiError (js ''unavailable'') (js ''The service is currently unavailable.'')))"
proof -
  let ?e = "js ''test@example.com''" and ?p = "js ''password123''"
  let ?cred = "UserCredential (FirebaseUser (js ''test-user-id''))"
  let ?u = "fixture_user\<lparr>is_active := False\<rparr>"
  have m: "or_default (err_code fixture_unavailable) (js ''login-failed'') = js ''unavailable''"
    "login_error_message fixture_unavailable = js ''The service is currently unavailable.''"
    by (simp_all add: fixture_unavailable_def login_error_message_def js_def)
  have a1: "reply_signInWithEmailAndPassword fixture_backend_inactive [] ?e ?p = Inr ?cred"
    and a2: "reply_getDoc_users fixture_backend_inactive ([] @ [SignInWithEmailAndPassword ?e ?p])
               (uid (UserCredential.user ?cred)) = Inr (Some ?u)"
    and a3: "\<not> is_active ?u"
    and a4: "reply_signOut fixture_backend_inactive
               ([] @ [SignInWithEmailAndPassword ?e ?p, GetDoc (js ''users'') (uid (UserCredential.user ?cred))])
             = Inr ()"
    by (simp_all add: fixture_backend_inactive_def fixture_backend_def fixture_user_def)
  have b1: "reply_signInWithEmailAndPassword fixture_backend_inactive_signOut_fails [] ?e ?p = Inr ?cred"
    and b2: "reply_getDoc_users fixture_backend_inactive_signOut_fails ([] @ [SignInWithEmailAndPassword ?e ?p])
               (uid (UserCredential.user ?cred)) = Inr (Some ?u)"
    and b4: "reply_signOut fixture_backend_inactive_signOut_fails
               ([] @ [SignInWithEmailAndPassword ?e ?p, GetDoc (js ''users'') (uid (UserCredential.user ?cred))])
             = Inl fixture_unavailable"
    by (simp_all add: fixture_backend_inactive_signOut_fails_def fixture_backend_inactive_def
          fixture_backend_def)
  from C2_login_inactive_revokes_and_fails [OF a1 a2 a3] a4
  have a: "\<exists>r. loginUser fixture_backend_inactive ?e ?p [] =
          (Inr r, [SignInWithEmailAndPassword ?e ?p, GetDoc (js ''users'') (js ''test-user-id''), SignOut])
       \<and> \<not> success r
       \<and> ApiResponse.error r = Some (ApiError (js ''login-failed'') msg_account_disabled)"
    by auto
  from C2_login_inactive_revokes_and_fails [OF b1 b2 a3, of fixture_unavailable] b4 m
  have b: "\<exists>r. loginUser fixture_backend_inactive_signOut_fails ?e ?p [] =
          (Inr r, [SignInWithEmailAndPassword ?e ?p, GetDoc (js ''users'') (js ''test-user-id''), SignOut])
       \<and> \<not> success r
       \<and> ApiResponse.error r =
             Some (ApiError (js ''unavailable'') (js ''The service is currently unavailable.''))"
    by auto
  from a b show ?thesis by blast
qed

text \<open>
  Claim C3, as stated, fails. The write of \<open>last_login\<close> is awaited inside the \<open>try\<close>
  block (lines 85-87): on the fixture where the sign-in succeeds, the record is found and
  active, and that write is rejected, loginUser returns \<open>success = false\<close>.
\<close>

theorem C3_stamp_failure_counterexample:
  "reply_signInWithEmailAndPassword fixture_backend_stamp_fails [] (js ''test@example.com'') (js ''password123'')
     = Inr (UserCredential (FirebaseUser (js ''test-user-id'')))
   \<and> reply_getDoc_users fixture_backend_stamp_fails
         [SignInWithEmailAndPassword (js ''test@example.com'') (js ''password123'')] (js ''test-user-id'')
     = Inr (Some fixture_user)
   \<and> is_active fixture_user
   \<and> fst (loginUser fixture_backend_stamp_fails (js ''test@example.com'') (js ''password123'') []) =
       Inr \<lparr>success = False, data = None,
            ApiResponse.error = Some (ApiError (js ''unavailable'') (js ''The service is currently unavailable.'')),
            message = None\<rparr>"
  by (simp add: loginUser_def io_defs sdk_defs fixture_defs login_error_message_def js_def)

text \<open>
  Claim C3, amended. When the sign-in succeeds and the identity record is found with
  \<open>is_active = true\<close>: if the write of the last-login time and the token request both
  resolve, loginUser returns \<open>success = true\<close> with the record and the token as data;
  if the write is rejected, loginUser returns \<open>success = false\<close> with the error mapped
  from that rejection, and the token is not requested. The write is required to succeed.
\<close>

theorem C3_login_active_needs_stamp:
  assumes "reply_signInWithEmailAndPassword be tr e p = Inr cred"
    and "reply_getDoc_users be (tr @ [SignInWithEmailAndPassword e p]) (uid (UserCredential.user cred)) = Inr (Some userData)"
    and "is_active userData"
  shows
    "(reply_updateDoc be (tr @ [SignInWithEmailAndPassword e p, GetDoc (js ''users'') (uid (UserCredential.user cred))])
         (uid (UserCredential.user cred)) [(js ''last_login'', FieldTimestamp ServerTimestamp)] = Inr ()
      \<and> reply_getIdToken be
           (tr @ [SignInWithEmailAndPassword e p, GetDoc (js ''users'') (uid (UserCredential.user cred)),
                  UpdateDoc (js ''users'') (uid (UserCredential.user cred)) [(js ''last_login'', FieldTimestamp ServerTimestamp)]])
           (uid (UserCredential.user cred)) = Inr t
      \<longrightarrow> fst (loginUser be e p tr) =
            Inr \<lparr>success = True, data = Some (with_token userData t), ApiResponse.error = None,
                 message = Some msg_login_succeeded\<rparr>)
     \<and> (reply_updateDoc be (tr @ [SignInWithEmailAndPassword e p, GetDoc (js ''users'') (uid (UserCredential.user cred))])
         (uid (UserCredential.user cred)) [(js ''last_login'', FieldTimestamp ServerTimestamp)] = Inl x
      \<longrightarrow> loginUser be e p tr =
            (Inr \<lparr>success = False, data = None,
                  ApiResponse.error = Some (ApiError (or_default (err_code x) (js ''login-failed'')) (login_error_message x)),
                  message = None\<rparr>,
             tr @ [SignInWithEmailAndPassword e p, GetDoc (js ''users'') (uid (UserCredential.user cred)),
                   UpdateDoc (js ''users'') (uid (UserCredential.user cred)) [(js ''last_login'', FieldTimestamp ServerTimestamp)]]))"
  using assms by (simp add: loginUser_def io_defs sdk_defs)

theorem C3_login_active_needs_stamp_witness:
  "fst (loginUser fixture_backend (js ''test@example.com'') (js ''password123'') []) =
     Inr \<lparr>success = True, data = Some (with_token fixture_user (js ''mock-token'')), ApiResponse.error = None,
          message = Some msg_login_succeeded\<rparr>
   \<and> fst (loginUser fixture_backend_stamp_fails (js ''test@example.com'') (js ''password123'') []) =
     Inr \<lparr>success = False, data = None,
          ApiResponse.error = Some (ApiError (or_default (err_code fixture_unavailable) (js ''login-failed''))
                                 (login_error_message fixture_unavailable)),
          message = None\<rparr>"
  using C3_login_active_needs_stamp [of fixture_backend "[]" "js ''test@example.com''"
      "js ''password123''" "UserCredential (FirebaseUser (js ''test-user-id''))" fixture_user
      "js ''mock-token''"]
    C3_login_active_needs_stamp [of fixture_backend_stamp_fails "[]" "js ''test@example.com''"
      "js ''password123''" "UserCredential (FirebaseUser (js ''test-user-id''))" fixture_user
      _ fixture_unavailable]
  by (simp add: fixture_backend_def fixture_backend_stamp_fails_def fixture_user_def js_def)

section \<open>Authorization preconditions\<close>

text \<open>
  Claim C5. For every input, backend and history, createUser called by an acting user whose
  role is \<open>user\<close> returns \<open>success = false\<close> with the message "no permission to create
  users", and leaves the trace as it was: it calls neither
  \<open>createUserWithEmailAndPassword\<close> nor \<open>setDoc\<close> (nor any other SDK function).
\<close>

theorem C5_createUser_requires_admin:
  "role currentUser = role_user \<Longrightarrow>
   createUser be userData currentUser tr =
     (Inr \<lparr>success = False, data = None,
           ApiResponse.error = Some (ApiError (js ''user-creation-failed'') msg_no_create_permission),
           message = None\<rparr>, tr)"
  by (simp add: createUser_def io_defs createUser_error_message_def new_Error_def
        msg_no_create_permission_def)

theorem C5_createUser_requires_admin_witness:
  "role (with_token fixture_user (js ''mock-token'')) = role_user \<and>
   createUser fixture_backend fixture_new_user (with_token fixture_user (js ''mock-token'')) [] =
     (Inr \<lparr>success = False, data = None,
           ApiResponse.error = Some (ApiError (js ''user-creation-failed'') msg_no_create_permission),
           message = None\<rparr>, [])"
proof -
  have h: "role (with_token fixture_user (js ''mock-token'')) = role_user"
    by (simp add: with_token_def User.extend_def fixture_user_def)
  from h C5_createUser_requires_admin [OF h, of fixture_backend fixture_new_user "[]"]
  show ?thesis by simp
qed

text \<open>
  Claim C6. For every acting user (any role, any tenant), backend and history,
  toggleUserStatus with \<open>userId\<close> equal to the acting user's own id returns
  \<open>success = false\<close>, and the only SDK call it can have made is the read of the target's
  record: \<open>updateDoc\<close> is not performed.
\<close>

theorem C6_toggle_self_fails:
  "userId = id' currentUser \<Longrightarrow>
   \<exists>r. fst (toggleUserStatus be userId isActive currentUser tr) = Inr r \<and> \<not> success r \<and>
       (snd (toggleUserStatus be userId isActive currentUser tr) = tr \<or>
        snd (toggleUserStatus be userId isActive currentUser tr) = tr @ [GetDoc (js ''users'') userId])"
  by (simp add: toggleUserStatus_def io_defs sdk_defs split: sum.splits option.splits)

theorem C6_toggle_self_fails_witness:
  "\<exists>r. fst (toggleUserStatus fixture_backend (js ''test-admin-id'') False
              (with_token fixture_admin (js ''mock-token'')) []) = Inr r
       \<and> \<not> success r
       \<and> ApiResponse.error r = Some (ApiError (js ''status-toggle-failed'') msg_self_toggle)
       \<and> snd (toggleUserStatus fixture_backend (js ''test-admin-id'') False
              (with_token fixture_admin (js ''mock-token'')) []) = [GetDoc (js ''users'') (js ''test-admin-id'')]"
proof -
  let ?cu = "with_token fixture_admin (js ''mock-token'')"
  have h: "js ''test-admin-id'' = id' ?cu"
    by (simp add: with_token_def User.extend_def fixture_admin_def fixture_user_def)
  have e: "toggleUserStatus fixture_backend (js ''test-admin-id'') False ?cu [] =
      (Inr \<lparr>success = False, data = None,
            ApiResponse.error = Some (ApiError (js ''status-toggle-failed'') msg_self_toggle), message = None\<rparr>,
       [GetDoc (js ''users'') (js ''test-admin-id'')])"
    by (simp add: toggleUserStatus_def io_defs sdk_defs with_token_def User.extend_def fixture_defs
          new_Error_def msg_self_toggle_def)
  from C6_toggle_self_fails [OF h, of fixture_backend False "[]"] e
  show ?thesis by simp
qed

text \<open>
  Claim C9. For every tenant id, backend, history and acting user whose \<open>company_id\<close>
  differs from the tenant id, getCompanyUsers returns \<open>success = false\<close> and leaves the
  trace as it was: the query on the user collection is not executed.
\<close>

theorem C9_getCompanyUsers_other_tenant:
  "company_id currentUser \<noteq> companyId \<Longrightarrow>
   getCompanyUsers be companyId currentUser tr =
     (Inr \<lparr>success = False, data = None,
           ApiResponse.error = Some (ApiError (js ''users-fetch-failed'') msg_no_list_permission),
           message = None\<rparr>, tr)"
  by (simp add: getCompanyUsers_def io_defs new_Error_def msg_no_list_permission_def)

theorem C9_getCompanyUsers_other_tenant_witness:
  "company_id (with_token fixture_user (js ''mock-token'')) \<noteq> js ''other-company-id'' \<and>
   getCompanyUsers fixture_backend (js ''other-company-id'') (with_token fixture_user (js ''mock-token'')) [] =
     (Inr \<lparr>success = False, data = None,
           ApiResponse.error = Some (ApiError (js ''users-fetch-failed'') msg_no_list_permission),
           message = None\<rparr>, [])"
proof -
  have h: "company_id (with_token fixture_user (js ''mock-token'')) \<noteq> js ''other-company-id''"
    by (simp add: with_token_def User.extend_def fixture_user_def js_def)
  from h C9_getCompanyUsers_other_tenant [OF h, of fixture_backend "[]"]
  show ?thesis by simp
qed

section \<open>The session watcher\<close>

lemma callback_invocations_append:
  "callback_invocations (xs @ ys) = callback_invocations xs @ callback_invocations ys"
  by (induction xs rule: callback_invocations.induct) simp_all

text \<open>
  Claim C7, as stated, fails for an observer that throws. The calls of the observer in
  lines 40 and 44 are inside the \<open>try\<close> block whose \<open>catch\<close> calls it again: on the
  all-resolving backend, for a notification carrying the principal \<open>test-user-id\<close>, the
  observer that throws on a session user is invoked twice, first with the session user and
  then with absent.
\<close>

theorem C7_throwing_observer_counterexample:
  "callback_invocations
     (snd (onAuthStateChange fixture_backend fixture_observer_throwing
             (Some (FirebaseUser (js ''test-user-id''))) [])) =
   [Some (with_token fixture_user (js ''mock-token'')), None]"
  by (simp add: onAuthStateChange_def invoke_def io_defs sdk_defs fixture_backend_def
        fixture_observer_throwing_def js_def)

text \<open>
  Claim C7, amended. Let the observer return normally whenever it is invoked. Then, for
  every notification carrying a principal: if the principal's identity record is not found,
  the watcher reads the record, calls \<open>signOut\<close> and invokes the observer with absent
  (also when the \<open>signOut\<close> is rejected); if the read of the record is rejected, the
  rejection is caught and the observer is invoked with absent; and every notification,
  with or without a principal, ends without an exception after exactly one invocation of
  the observer.
\<close>

theorem C7_watcher_one_callback:
  assumes "returns_normally callback"
  shows
    "(reply_getDoc_users be tr (uid fu) = Inr None \<longrightarrow>
        onAuthStateChange be callback (Some fu) tr =
          (Inr (), tr @ [GetDoc (js ''users'') (uid fu), SignOut, Callback None])) \<and>
     (reply_getDoc_users be tr (uid fu) = Inl x \<longrightarrow>
        onAuthStateChange be callback (Some fu) tr =
          (Inr (), tr @ [GetDoc (js ''users'') (uid fu), Callback None])) \<and>
     (\<exists>u. fst (onAuthStateChange be callback n tr) = Inr () \<and>
          callback_invocations (snd (onAuthStateChange be callback n tr)) =
            callback_invocations tr @ [u])"
proof (intro conjI impI)
  assume "reply_getDoc_users be tr (uid fu) = Inr None"
  with assms show "onAuthStateChange be callback (Some fu) tr =
      (Inr (), tr @ [GetDoc (js ''users'') (uid fu), SignOut, Callback None])"
    by (simp add: onAuthStateChange_def invoke_def io_defs sdk_defs returns_normally_def
          split: sum.splits)
next
  assume "reply_getDoc_users be tr (uid fu) = Inl x"
  with assms show "onAuthStateChange be callback (Some fu) tr =
      (Inr (), tr @ [GetDoc (js ''users'') (uid fu), Callback None])"
    by (simp add: onAuthStateChange_def invoke_def io_defs sdk_defs returns_normally_def)
next
  from assms show "\<exists>u. fst (onAuthStateChange be callback n tr) = Inr () \<and>
      callback_invocations (snd (onAuthStateChange be callback n tr)) = callback_invocations tr @ [u]"
    by (cases n)
       (simp_all add: onAuthStateChange_def invoke_def io_defs sdk_defs returns_normally_def
          callback_invocations_append split: sum.splits option.splits)
qed

theorem C7_watcher_one_callback_witness:
  "returns_normally fixture_observer \<and>
   onAuthStateChange fixture_backend_orphan fixture_observer (Some (FirebaseUser (js ''ghost-id''))) [] =
     (Inr (), [GetDoc (js ''users'') (js ''ghost-id''), SignOut, Callback None]) \<and>
   onAuthStateChange fixture_backend_directory_down fixture_observer (Some (FirebaseUser (js ''ghost-id''))) [] =
     (Inr (), [GetDoc (js ''users'') (js ''ghost-id''), Callback None]) \<and>
   (\<exists>u. fst (onAuthStateChange fixture_backend fixture_observer (Some (FirebaseUser (js ''test-user-id''))) [])
          = Inr () \<and>
        callback_invocations
          (snd (onAuthStateChange fixture_backend fixture_observer (Some (FirebaseUser (js ''test-user-id''))) []))
          = [u])"
proof -
  have h: "returns_normally fixture_observer"
    by (simp add: returns_normally_def fixture_observer_def)
  from h
    C7_watcher_one_callback [OF h, of fixture_backend_orphan "[]" "FirebaseUser (js ''ghost-id'')"]
    C7_watcher_one_callback [OF h, of fixture_backend_directory_down "[]" "FirebaseUser (js ''ghost-id'')"
      fixture_unavailable]
    C7_watcher_one_callback [OF h, of fixture_backend "[]" _ _ "Some (FirebaseUser (js ''test-user-id''))"]
  show ?thesis
    by (simp add: fixture_backend_orphan_def fixture_backend_directory_down_def)
qed

section \<open>The session context\<close>

lemma logoutUser_returns: "\<exists>r. logoutUser be tr = (Inr r, tr @ [SignOut])"
  by (simp add: logoutUser_def io_defs sdk_defs split: sum.splits)

lemma logout_state:
  "logout be st tr = (\<lparr>user = None, company = None, loading = False, error = None\<rparr>, tr @ [SignOut])"
proof -
  obtain r where "logoutUser be tr = (Inr r, tr @ [SignOut])"
    using logoutUser_returns by blast
  then show ?thesis by (simp add: logout_def)
qed

lemma getCompanyData_cases:
  "(\<exists>c tr'. getCompanyData be k tr = (Inr \<lparr>success = True, data = Some c, ApiResponse.error = None, message = None\<rparr>, tr'))
   \<or> (\<exists>e tr'. getCompanyData be k tr = (Inr \<lparr>success = False, data = None, ApiResponse.error = Some e, message = None\<rparr>, tr'))"
  by (simp add: getCompanyData_def io_defs sdk_defs split: sum.splits option.splits)

lemma step_user:
  "user (fst (step be (st, tr) ev)) =
     (case ev of AuthStateChanged u \<Rightarrow> u | LogoutCalled \<Rightarrow> None | _ \<Rightarrow> user st)"
proof (cases ev)
  case (AuthStateChanged u)
  then show ?thesis
    using getCompanyData_cases [of be _ tr]
    by (cases u) (auto simp: authStateCallback_def Let_def split: prod.splits sum.splits)
next
  case (LoginCalled e p)
  then show ?thesis by (simp add: login_def Let_def split: prod.splits sum.splits)
next
  case LogoutCalled
  then show ?thesis by (simp add: logout_state)
next
  case (SendPasswordResetCalled e)
  then show ?thesis by (simp add: sendPasswordReset_def Let_def split: prod.splits sum.splits)
next
  case ClearErrorCalled
  then show ?thesis by (simp add: clearError_def)
qed

lemma step_company:
  "company (fst (step be (st, tr) ev)) \<noteq> None \<longleftrightarrow>
     (case ev of
        AuthStateChanged (Some au) \<Rightarrow> tenant_fetch_succeeds be au tr \<or> company st \<noteq> None
      | AuthStateChanged None \<Rightarrow> False
      | LogoutCalled \<Rightarrow> False
      | _ \<Rightarrow> company st \<noteq> None)"
proof (cases ev)
  case (AuthStateChanged u)
  show ?thesis
  proof (cases u)
    case None
    with AuthStateChanged show ?thesis by (simp add: authStateCallback_def)
  next
    case (Some au)
    with AuthStateChanged show ?thesis
      using getCompanyData_cases [of be "company_id au" tr]
      by (auto simp: authStateCallback_def tenant_fetch_succeeds_def Let_def)
  qed
next
  case (LoginCalled e p)
  then show ?thesis by (simp add: login_def Let_def split: prod.splits sum.splits)
next
  case LogoutCalled
  then show ?thesis by (simp add: logout_state)
next
  case (SendPasswordResetCalled e)
  then show ?thesis by (simp add: sendPasswordReset_def Let_def split: prod.splits sum.splits)
next
  case ClearErrorCalled
  then show ?thesis by (simp add: clearError_def)
qed

lemma watched_run: "fst (foldl (watch_step be) ((initial_state, []), []) evs) = run be evs"
proof (induction evs rule: rev_induct)
  case Nil
  show ?case by (simp add: run_def)
next
  case (snoc ev evs)
  then show ?case
    by (cases "foldl (watch_step be) ((initial_state, []), []) evs") (auto simp: run_def)
qed

lemma run_snoc: "run be (evs @ [ev]) = step be (run be evs) ev"
  by (simp add: run_def)

lemma tenant_fetches_snoc:
  "tenant_fetches be (evs @ [ev]) =
     (case ev of
        AuthStateChanged (Some au) \<Rightarrow> tenant_fetches be evs @ [tenant_fetch_succeeds be au (snd (run be evs))]
      | AuthStateChanged None \<Rightarrow> []
      | LogoutCalled \<Rightarrow> []
      | _ \<Rightarrow> tenant_fetches be evs)"
proof -
  obtain c fs where w: "foldl (watch_step be) ((initial_state, []), []) evs = (c, fs)"
    by (cases "foldl (watch_step be) ((initial_state, []), []) evs") auto
  with watched_run [of be evs] have c: "c = run be evs" by simp
  from w have fs: "tenant_fetches be evs = fs" by (simp add: tenant_fetches_def)
  have "tenant_fetches be (evs @ [ev]) = snd (watch_step be (c, fs) ev)"
    using w by (simp add: tenant_fetches_def)
  with c fs show ?thesis by (simp split: context_event.split option.split)
qed

text \<open>The invariant of the serial run: a recorded fetch means a user, and the company is populated exactly when some recorded fetch succeeded.\<close>

lemma run_invariant:
  "(tenant_fetches be evs \<noteq> [] \<longrightarrow> user (fst (run be evs)) \<noteq> None) \<and>
   (company (fst (run be evs)) \<noteq> None \<longleftrightarrow> True \<in> set (tenant_fetches be evs))"
proof (induction evs rule: rev_induct)
  case Nil
  show ?case by (simp add: run_def tenant_fetches_def initial_state_def)
next
  case (snoc ev evs)
  obtain st tr where r: "run be evs = (st, tr)" by (cases "run be evs") auto
  let ?st' = "fst (run be (evs @ [ev]))"
  have u: "user ?st' = (case ev of AuthStateChanged u \<Rightarrow> u | LogoutCalled \<Rightarrow> None | _ \<Rightarrow> user st)"
    using r step_user [of be st tr ev] by (simp add: run_snoc del: step.simps)
  have c: "company ?st' \<noteq> None \<longleftrightarrow>
     (case ev of
        AuthStateChanged (Some au) \<Rightarrow> tenant_fetch_succeeds be au tr \<or> company st \<noteq> None
      | AuthStateChanged None \<Rightarrow> False
      | LogoutCalled \<Rightarrow> False
      | _ \<Rightarrow> company st \<noteq> None)"
    using r step_company [of be st tr ev] by (simp add: run_snoc del: step.simps)
  have f: "tenant_fetches be (evs @ [ev]) =
     (case ev of
        AuthStateChanged (Some au) \<Rightarrow> tenant_fetches be evs @ [tenant_fetch_succeeds be au tr]
      | AuthStateChanged None \<Rightarrow> []
      | LogoutCalled \<Rightarrow> []
      | _ \<Rightarrow> tenant_fetches be evs)"
    using r by (simp add: tenant_fetches_snoc split: context_event.split option.split)
  from snoc r have ih1: "tenant_fetches be evs \<noteq> [] \<longrightarrow> user st \<noteq> None"
    and ih2: "company st \<noteq> None \<longleftrightarrow> True \<in> set (tenant_fetches be evs)"
    by simp_all
  have g1: "tenant_fetches be (evs @ [ev]) \<noteq> [] \<longrightarrow> user ?st' \<noteq> None"
    unfolding u f using ih1 by (simp split: context_event.split option.split)
  have g2: "company ?st' \<noteq> None \<longleftrightarrow> True \<in> set (tenant_fetches be (evs @ [ev]))"
    unfolding c f using ih2 by (auto split: context_event.split option.split)
  from g1 g2 show ?case by blast
qed

text \<open>
  What the serial runs maintain (the lemma says nothing about runs in which a handler
  overtakes a pending tenant fetch). In every state reached by running handlers one after
  the other from the initial state, the company is populated if and only if a user is
  present and
  some tenant fetch made since the session was last cleared (by a notification without a
  user or by a logout) has succeeded. When the tenant fetch for a notified user fails, the
  user is set to that user, the error message "fetching the company information failed" is
  recorded, and the company field is left as it was: the failure branch (lines 59-62) does
  not reset it, unlike the branch for an absent user (lines 64-65) and \<open>logout\<close>
  (lines 116-117).
\<close>

lemma company_iff_some_fetch_succeeded:
  "(company (fst (run be evs)) \<noteq> None \<longleftrightarrow>
      user (fst (run be evs)) \<noteq> None \<and> some_tenant_fetch_succeeded be evs) \<and>
   (\<not> tenant_fetch_succeeds be au (snd (run be evs)) \<longrightarrow>
      user (fst (run be (evs @ [AuthStateChanged (Some au)]))) = Some au \<and>
      AuthState.error (fst (run be (evs @ [AuthStateChanged (Some au)]))) = Some msg_company_fetch_failed \<and>
      company (fst (run be (evs @ [AuthStateChanged (Some au)]))) = company (fst (run be evs)))"
proof (intro conjI impI)
  show "company (fst (run be evs)) \<noteq> None \<longleftrightarrow>
      user (fst (run be evs)) \<noteq> None \<and> some_tenant_fetch_succeeded be evs"
    using run_invariant [of be evs] by (auto simp: some_tenant_fetch_succeeded_def)
next
  assume f: "\<not> tenant_fetch_succeeds be au (snd (run be evs))"
  obtain st tr where r: "run be evs = (st, tr)" by (cases "run be evs") auto
  from f r getCompanyData_cases [of be "company_id au" tr]
  have s: "\<exists>tr'. step be (st, tr) (AuthStateChanged (Some au)) =
      (st\<lparr>user := Some au, AuthState.error := Some msg_company_fetch_failed, loading := False\<rparr>, tr')"
    by (auto simp: authStateCallback_def tenant_fetch_succeeds_def Let_def)
  from s r show "user (fst (run be (evs @ [AuthStateChanged (Some au)]))) = Some au"
    by (auto simp: run_snoc simp del: step.simps)
  from s r show "AuthState.error (fst (run be (evs @ [AuthStateChanged (Some au)]))) = Some msg_company_fetch_failed"
    by (auto simp: run_snoc simp del: step.simps)
  from s r show "company (fst (run be (evs @ [AuthStateChanged (Some au)]))) = company (fst (run be evs))"
    by (auto simp: run_snoc simp del: step.simps)
qed

text \<open>
  Claim C4: in every reachable state of the session context, the company is populated if
  and only if a user is present and the most recent tenant fetch for that session
  succeeded; when the tenant fetch fails, the user stays set and an error message is
  recorded. The second half holds (see above); the first half is broken by the code. A
  first notification carries a user of the tenant \<open>test-company-id\<close>, whose company
  document exists; a second one, with no absent notification in between, carries a user of
  another tenant, whose company document does not exist. After both, the user is the
  second one, the company is still the first user's tenant, and the most recent tenant
  fetch has failed.
\<close>

theorem C4_stale_company_after_failed_fetch:
  "user (fst (run fixture_backend
            [AuthStateChanged (Some fixture_session_user), AuthStateChanged (Some fixture_other_session_user)]))
     = Some fixture_other_session_user
   \<and> company (fst (run fixture_backend
            [AuthStateChanged (Some fixture_session_user), AuthStateChanged (Some fixture_other_session_user)]))
     = Some fixture_company
   \<and> \<not> most_recent_tenant_fetch_succeeded fixture_backend
            [AuthStateChanged (Some fixture_session_user), AuthStateChanged (Some fixture_other_session_user)]"
  by (simp add: run_def most_recent_tenant_fetch_succeeded_def tenant_fetches_def
        tenant_fetch_succeeds_def authStateCallback_def getCompanyData_def io_defs sdk_defs
        fixture_backend_def fixture_session_user_def fixture_other_session_user_def fixture_user_def
        with_token_def User.extend_def initial_state_def js_def)

text \<open>
  Claim C10. For every backend, state and history, the context's \<open>logout\<close> ends with
  \<open>user\<close> and \<open>company\<close> absent (and \<open>loading\<close> false, \<open>error\<close> absent) after exactly
  one \<open>signOut\<close> call, whatever that call answers: when the \<open>signOut\<close> is rejected,
  \<open>logoutUser\<close> does not throw but returns the failure envelope \<open>logout-failed\<close>, so
  the statements after the \<open>await\<close> run.
\<close>

theorem C10_logout_clears_session:
  "logout be st tr =
     (\<lparr>user = None, company = None, loading = False, error = None\<rparr>, tr @ [SignOut]) \<and>
   (reply_signOut be tr = Inl x \<longrightarrow>
      logoutUser be tr =
        (Inr \<lparr>success = False, data = None,
              ApiResponse.error = Some (ApiError (js ''logout-failed'') msg_logout_failed),
              message = None\<rparr>, tr @ [SignOut]))"
proof (intro conjI impI)
  show "logout be st tr = (\<lparr>user = None, company = None, loading = False, error = None\<rparr>, tr @ [SignOut])"
    by (rule logout_state)
next
  assume "reply_signOut be tr = Inl x"
  then show "logoutUser be tr =
        (Inr \<lparr>success = False, data = None,
              ApiResponse.error = Some (ApiError (js ''logout-failed'') msg_logout_failed),
              message = None\<rparr>, tr @ [SignOut])"
    by (simp add: logoutUser_def io_defs sdk_defs)
qed

theorem C10_logout_clears_session_witness:
  "reply_signOut fixture_backend_signOut_fails [] = Inl fixture_unavailable \<and>
   logout fixture_backend_signOut_fails
     \<lparr>user = Some fixture_session_user, company = Some fixture_company, loading = False, error = None\<rparr> [] =
     (\<lparr>user = None, company = None, loading = False, error = None\<rparr>, [SignOut]) \<and>
   logoutUser fixture_backend_signOut_fails [] =
     (Inr \<lparr>success = False, data = None,
           ApiResponse.error = Some (ApiError (js ''logout-failed'') msg_logout_failed),
           message = None\<rparr>, [SignOut])"
proof -
  have h: "reply_signOut fixture_backend_signOut_fails [] = Inl fixture_unavailable"
    by (simp add: fixture_backend_signOut_fails_def)
  from h C10_logout_clears_session [of fixture_backend_signOut_fails
      "\<lparr>user = Some fixture_session_user, company = Some fixture_company, loading = False, error = None\<rparr>"
      "[]" fixture_unavailable]
  show ?thesis by simp
qed

section \<open>The matcher decides the pattern\<close>

lemma accepts_empty_iff: "accepts_empty p \<longleftrightarrow> [] \<in> matched p"
  by (induction p) (auto intro: repeated.none)

lemma repeated_Cons:
  "c # s \<in> repeated A \<longleftrightarrow> (\<exists>u v. s = u @ v \<and> c # u \<in> A \<and> v \<in> repeated A)"
proof
  assume "c # s \<in> repeated A"
  then show "\<exists>u v. s = u @ v \<and> c # u \<in> A \<and> v \<in> repeated A"
  proof (induction "c # s" arbitrary: s rule: repeated.induct)
    case (more u v)
    show ?case
    proof (cases u)
      case Nil
      with more show ?thesis by simp
    next
      case (Cons d u')
      with more.hyps(1,2,4) show ?thesis by auto
    qed
  qed
next
  assume "\<exists>u v. s = u @ v \<and> c # u \<in> A \<and> v \<in> repeated A"
  then obtain u v where "s = u @ v" "c # u \<in> A" "v \<in> repeated A" by blast
  then show "c # s \<in> repeated A"
    using repeated.more [of "c # u" A v] by simp
qed

lemma matched_Seq_Cons:
  "c # s \<in> matched (Seq p q) \<longleftrightarrow>
     (\<exists>u v. s = u @ v \<and> c # u \<in> matched p \<and> v \<in> matched q) \<or>
     ([] \<in> matched p \<and> c # s \<in> matched q)"
proof
  assume "c # s \<in> matched (Seq p q)"
  then obtain u v where uv: "c # s = u @ v" "u \<in> matched p" "v \<in> matched q" by auto
  show "(\<exists>u v. s = u @ v \<and> c # u \<in> matched p \<and> v \<in> matched q) \<or>
     ([] \<in> matched p \<and> c # s \<in> matched q)"
  proof (cases u)
    case Nil
    with uv show ?thesis by simp
  next
    case (Cons d u')
    with uv have "s = u' @ v" "c # u' \<in> matched p" by simp_all
    with uv(3) show ?thesis by blast
  qed
next
  assume "(\<exists>u v. s = u @ v \<and> c # u \<in> matched p \<and> v \<in> matched q) \<or>
     ([] \<in> matched p \<and> c # s \<in> matched q)"
  then show "c # s \<in> matched (Seq p q)"
  proof
    assume "\<exists>u v. s = u @ v \<and> c # u \<in> matched p \<and> v \<in> matched q"
    then obtain u v where "s = u @ v" "c # u \<in> matched p" "v \<in> matched q" by blast
    then have "c # s = (c # u) @ v \<and> c # u \<in> matched p \<and> v \<in> matched q" by simp
    then show ?thesis unfolding matched.simps by blast
  next
    assume "[] \<in> matched p \<and> c # s \<in> matched q"
    then have "c # s = [] @ (c # s) \<and> [] \<in> matched p \<and> c # s \<in> matched q" by simp
    then show ?thesis unfolding matched.simps by blast
  qed
qed

lemma rest_after_iff: "s \<in> matched (rest_after c p) \<longleftrightarrow> c # s \<in> matched p"
proof (induction p arbitrary: s)
  case Fail
  show ?case by simp
next
  case Empty
  show ?case by simp
next
  case (Unit P)
  show ?case by simp
next
  case (Alt p q)
  then show ?case by simp
next
  case (Seq p q)
  have "s \<in> matched (rest_after c (Seq p q)) \<longleftrightarrow>
     (\<exists>u v. s = u @ v \<and> u \<in> matched (rest_after c p) \<and> v \<in> matched q) \<or>
     (accepts_empty p \<and> s \<in> matched (rest_after c q))"
    by (cases "accepts_empty p") simp_all
  also have "\<dots> \<longleftrightarrow>
     (\<exists>u v. s = u @ v \<and> c # u \<in> matched p \<and> v \<in> matched q) \<or>
     ([] \<in> matched p \<and> c # s \<in> matched q)"
    by (simp only: Seq accepts_empty_iff)
  also have "\<dots> \<longleftrightarrow> c # s \<in> matched (Seq p q)"
    by (simp only: matched_Seq_Cons)
  finally show ?case .
next
  case (Star p)
  have "s \<in> matched (rest_after c (Star p)) \<longleftrightarrow>
     (\<exists>u v. s = u @ v \<and> u \<in> matched (rest_after c p) \<and> v \<in> repeated (matched p))"
    by simp
  also have "\<dots> \<longleftrightarrow> (\<exists>u v. s = u @ v \<and> c # u \<in> matched p \<and> v \<in> repeated (matched p))"
    by (simp only: Star)
  also have "\<dots> \<longleftrightarrow> c # s \<in> matched (Star p)"
    by (simp only: repeated_Cons matched.simps)
  finally show ?case .
qed

lemma test_anchored_iff: "test_anchored p s \<longleftrightarrow> s \<in> matched p"
  by (induction s arbitrary: p) (simp_all add: accepts_empty_iff rest_after_iff)


lemma repeated_units: "repeated {[c] | c. P c} = {s. list_all P s}"
proof (intro set_eqI iffI)
  fix s assume "s \<in> repeated {[c] | c. P c}"
  then show "s \<in> {s. list_all P s}"
    by (induction rule: repeated.induct) auto
next
  fix s assume "s \<in> {s. list_all P s}"
  then have "list_all P s" by simp
  then show "s \<in> repeated {[c] | c. P c}"
  proof (induction s)
    case Nil
    show ?case by (rule repeated.none)
  next
    case (Cons c s)
    then have "[c] \<in> {[c] | c. P c}" "s \<in> repeated {[c] | c. P c}" by auto
    from repeated.more [OF this] show ?case by simp
  qed
qed

lemma matched_one_or_more_Unit: "matched (one_or_more (Unit P)) = {s. s \<noteq> [] \<and> list_all P s}"
proof (intro set_eqI iffI)
  fix s assume "s \<in> matched (one_or_more (Unit P))"
  then show "s \<in> {s. s \<noteq> [] \<and> list_all P s}"
    by (auto simp: one_or_more_def repeated_units)
next
  fix s assume "s \<in> {s. s \<noteq> [] \<and> list_all P s}"
  then obtain c cs where "s = [c] @ cs" "P c" "list_all P cs" by (cases s) auto
  then show "s \<in> matched (one_or_more (Unit P))"
    unfolding one_or_more_def matched.simps repeated_units by blast
qed

text \<open>The pattern of line 253 in words: three non-empty runs of code units that are neither white space nor \<open>@\<close>, the first two separated by \<open>@\<close> and the last two by a dot.\<close>

lemma email_pattern_iff:
  "test_anchored email_pattern s \<longleftrightarrow>
     (\<exists>l d t. s = l @ [0x40] @ d @ [0x2E] @ t \<and> l \<noteq> [] \<and> d \<noteq> [] \<and> t \<noteq> [] \<and>
        list_all not_space_or_at l \<and> list_all not_space_or_at d \<and> list_all not_space_or_at t)"
proof -
  have "matched email_pattern =
      {l @ [0x40] @ d @ [0x2E] @ t | l d t. l \<noteq> [] \<and> d \<noteq> [] \<and> t \<noteq> [] \<and>
        list_all not_space_or_at l \<and> list_all not_space_or_at d \<and> list_all not_space_or_at t}"
    unfolding email_pattern_def matched.simps(5) [of "one_or_more _"] matched.simps(5) [of "Unit _"]
      matched_one_or_more_Unit matched.simps(3)
    by (intro set_eqI iffI; clarsimp; blast)
  then show ?thesis by (simp add: test_anchored_iff) 
qed

section \<open>The login form controller\<close>

lemma login_invocations_append:
  "login_invocations (xs @ ys) = login_invocations xs @ login_invocations ys"
  by (induction xs rule: login_invocations.induct) simp_all

lemma not_an_email_rejected: "\<not> test_anchored email_pattern (js ''not-an-email'')"
  by (simp add: email_pattern_def one_or_more_def not_space_or_at_def is_space_def js_def)

lemma a_at_b_com_accepted: "test_anchored email_pattern (js ''a@b.com'')"
  by (simp add: email_pattern_def one_or_more_def not_space_or_at_def is_space_def js_def)

lemma handleSubmit_invalid:
  "\<not> fst (validateForm st) \<Longrightarrow> handleSubmit login' onSuccess st tr = (snd (validateForm st), tr)"
  by (cases "validateForm st") (simp add: handleSubmit_def)

lemma handleSubmit_valid:
  "fst (validateForm st) \<Longrightarrow>
   login_invocations (snd (handleSubmit login' onSuccess st tr)) =
     login_invocations tr @ [(email (values st), password (values st))]"
proof -
  assume "fst (validateForm st)"
  then obtain st1 where v: "validateForm st = (True, st1)"
    by (cases "validateForm st") auto
  let ?e = "email (values st)" and ?p = "password (values st)"
  have "snd (try_catch
               (bind_io (invoke_login login' ?e ?p) (\<lambda>result.
                  if success result then invoke_onSuccess onSuccess else return_io ()))
               (\<lambda>err. return_io ()) tr) = tr @ [Login ?e ?p]
        \<or> snd (try_catch
               (bind_io (invoke_login login' ?e ?p) (\<lambda>result.
                  if success result then invoke_onSuccess onSuccess else return_io ()))
               (\<lambda>err. return_io ()) tr) = tr @ [Login ?e ?p, OnSuccess]"
    by (cases "login' tr ?e ?p"; cases onSuccess)
       (auto simp: invoke_login_def invoke_onSuccess_def io_defs split: sum.splits)
  then show ?thesis
    by (auto simp: handleSubmit_def v Let_def login_invocations_append split: prod.splits)
qed

text \<open>
  Claim C8. Whatever \<open>login\<close> and \<open>onSuccess\<close> do, and whatever the errors, the
  submitting flag and the trace were before: \<open>handleSubmit\<close> with the email
  \<open>not-an-email\<close> and any password sets the field error "the format of the e-mail address
  is not correct" on \<open>email\<close> and calls nothing; with \<open>a@b.com\<close> and \<open>12345\<close> it sets
  the field error "enter a password of 6 characters or more" on \<open>password\<close> and calls
  nothing; with \<open>a@b.com\<close> and \<open>123456\<close> it invokes \<open>login\<close> exactly once, with
  these two arguments.
\<close>

theorem C8_login_form_submission:
  "email (errors (fst (handleSubmit login' onSuccess
      \<lparr>values = \<lparr>email = js ''not-an-email'', password = pw\<rparr>, errors = errs, isSubmitting = sub\<rparr> tr)))
     = Some msg_invalid_email
   \<and> snd (handleSubmit login' onSuccess
      \<lparr>values = \<lparr>email = js ''not-an-email'', password = pw\<rparr>, errors = errs, isSubmitting = sub\<rparr> tr) = tr
   \<and> password (errors (fst (handleSubmit login' onSuccess
      \<lparr>values = \<lparr>email = js ''a@b.com'', password = js ''12345''\<rparr>, errors = errs, isSubmitting = sub\<rparr> tr)))
     = Some msg_password_too_short
   \<and> snd (handleSubmit login' onSuccess
      \<lparr>values = \<lparr>email = js ''a@b.com'', password = js ''12345''\<rparr>, errors = errs, isSubmitting = sub\<rparr> tr) = tr
   \<and> login_invocations (snd (handleSubmit login' onSuccess
      \<lparr>values = \<lparr>email = js ''a@b.com'', password = js ''123456''\<rparr>, errors = errs, isSubmitting = sub\<rparr> tr))
     = login_invocations tr @ [(js ''a@b.com'', js ''123456'')]"
proof -
  let ?bad = "\<lparr>values = \<lparr>email = js ''not-an-email'', password = pw\<rparr>, errors = errs, isSubmitting = sub\<rparr>"
  let ?short = "\<lparr>values = \<lparr>email = js ''a@b.com'', password = js ''12345''\<rparr>, errors = errs, isSubmitting = sub\<rparr>"
  let ?good = "\<lparr>values = \<lparr>email = js ''a@b.com'', password = js ''123456''\<rparr>, errors = errs, isSubmitting = sub\<rparr>"
  have ne: "js ''not-an-email'' \<noteq> []" "js ''a@b.com'' \<noteq> []" "js ''12345'' \<noteq> []" "js ''123456'' \<noteq> []"
    and len: "length (js ''12345'') = 5" "length (js ''123456'') = 6"
    by (simp_all add: js_def)
  have bad: "validateForm ?bad =
      (False, ?bad\<lparr>errors := \<lparr>email = Some msg_invalid_email,
                               password = (if pw = [] then Some msg_password_required
                                           else if length pw < 6 then Some msg_password_too_short
                                           else None)\<rparr>\<rparr>)"
    using ne not_an_email_rejected by (simp add: validateForm_def Let_def)
  have short: "validateForm ?short =
      (False, ?short\<lparr>errors := \<lparr>email = None, password = Some msg_password_too_short\<rparr>\<rparr>)"
    using ne len a_at_b_com_accepted by (simp add: validateForm_def Let_def)
  have good: "fst (validateForm ?good)"
    using ne len a_at_b_com_accepted by (simp add: validateForm_def Let_def)
  have 1: "handleSubmit login' onSuccess ?bad tr = (snd (validateForm ?bad), tr)"
    by (rule handleSubmit_invalid) (simp add: bad)
  have 2: "handleSubmit login' onSuccess ?short tr = (snd (validateForm ?short), tr)"
    by (rule handleSubmit_invalid) (simp add: short)
  have 3: "login_invocations (snd (handleSubmit login' onSuccess ?good tr)) =
      login_invocations tr @ [(js ''a@b.com'', js ''123456'')]"
    using handleSubmit_valid [OF good, of login' onSuccess tr] by simp
  show ?thesis
    unfolding 1 2 using 3 by (simp add: bad short)
qed

end
